theory Spec2Isabelle
  imports Complex_Main "HOL-Library.Word"
begin

section \<open>Climate control engine of the flower storage (code.ino)\<close>

text \<open>
  The sketch keeps its state in global variables and changes it from \<open>loop()\<close>,
  which calls \<open>readThresholds()\<close>, \<open>storeSensorData()\<close> and
  \<open>controlCoolerAndWaterPump()\<close> in this order. The model passes a record of
  these globals (and of the output pins) through the same three functions. What the
  functions read from the hardware (\<open>analogRead\<close>, the DHT sensor, \<open>time\<close>,
  \<open>millis\<close>) is an argument of the model.
\<close>

subsection \<open>Floating-point values\<close>

text \<open>
  A C \<open>float\<close> is a not-a-number, an infinity or a finite number. The code only
  tests floats with \<open>isnan\<close> and compares them with \<open><\<close> and \<open>></\<close>;
  a comparison with a not-a-number operand is false. The finite values are modelled as
  real numbers, and the comparisons are the ones of the real numbers: the temperature
  of a reading is compared in \<open>double\<close> with an integer threshold plus or minus one
  half, and the humidity of a reading with an integer threshold converted to
  \<open>float\<close>; the thresholds come from 16-bit raw values, so every conversion is
  exact.
\<close>

datatype cfloat = NaN | NegInf | Fin real | PosInf

fun isnan :: "cfloat \<Rightarrow> bool" where
  "isnan NaN = True"
| "isnan _ = False"

fun flt_less :: "cfloat \<Rightarrow> cfloat \<Rightarrow> bool" where
  "flt_less NaN _ = False"
| "flt_less _ NaN = False"
| "flt_less _ NegInf = False"
| "flt_less NegInf _ = True"
| "flt_less PosInf _ = False"
| "flt_less (Fin a) (Fin b) = (a < b)"
| "flt_less (Fin a) PosInf = True"

definition flt_greater :: "cfloat \<Rightarrow> cfloat \<Rightarrow> bool" where
  "flt_greater a b = flt_less b a"

definition flt_of_int :: "int \<Rightarrow> cfloat" where
  "flt_of_int i = Fin (of_int i)"

subsection \<open>Pins and global state\<close>

datatype pin =
    COOLER_IN1_PIN | COOLER_IN2_PIN
  | FAN_IN1_PIN | FAN_IN2_PIN
  | WATERPUMP_IN1_PIN | WATERPUMP_IN2_PIN

datatype level = LOW | HIGH

text \<open>\<open>unsigned long\<close> has 32 bits on the ESP32: its arithmetic wraps around.\<close>

type_synonym ulong = "32 word"

record SensorData =
  temperature :: cfloat
  humidity :: cfloat
  timestamp :: ulong

record state =
  tecState :: string
  waterPumpState :: string
  temperatureThreshold :: int
  humidityThreshold :: int
  sensorReadings :: "SensorData list"
  waterPumpCycleStartTime :: ulong
  pins :: "pin \<Rightarrow> level"

definition waterPumpOnDuration :: ulong where
  "waterPumpOnDuration = 2000"

definition waterPumpOffDuration :: ulong where
  "waterPumpOffDuration = 20000"

definition waterPumpCyclePeriod :: ulong where
  "waterPumpCyclePeriod = waterPumpOnDuration + waterPumpOffDuration"

definition HYSTERESIS :: real where
  "HYSTERESIS = 1.0"

text \<open>
  The globals as they are when \<open>loop()\<close> first runs: the initialisers of the
  declarations, zero for the two thresholds (globals without initialiser), the empty
  vector. \<open>setup()\<close> only sets the pin modes and never writes a pin, so every
  output is at its reset level \<open>LOW\<close>.
\<close>

definition init :: state where
  "init = \<lparr> tecState = ''Inactive'', waterPumpState = ''Off'',
             temperatureThreshold = 0, humidityThreshold = 0,
             sensorReadings = [], waterPumpCycleStartTime = 0,
             pins = (\<lambda>p. LOW) \<rparr>"

definition digitalWrite :: "pin \<Rightarrow> level \<Rightarrow> state \<Rightarrow> state" where
  "digitalWrite p v s = s\<lparr> pins := (pins s)(p := v) \<rparr>"

text \<open>A block of statements runs them one after the other, first to last.\<close>

definition block :: "(state \<Rightarrow> state) list \<Rightarrow> state \<Rightarrow> state" where
  "block stmts s = fold (\<lambda>stmt. stmt) stmts s"

subsection \<open>readThresholds\<close>

text \<open>
  Modelled from the spec: the function \<open>map\<close> that \<open>readThresholds\<close> calls is code of
  the Arduino core, which is not among the files of the repository. The specification
  describes it as a linear range map (raw 0 to 0 percent, raw 4095 to 100 percent)
  whose value for the raw input \<open>r\<close> is \<open>round(r / 4095 * 100)\<close>: the position of
  \<open>x\<close> in the input range is carried over to the output range and rounded to the
  nearest integer.
\<close>

definition map_long :: "int \<Rightarrow> int \<Rightarrow> int \<Rightarrow> int \<Rightarrow> int \<Rightarrow> int" where
  "map_long x in_min in_max out_min out_max =
     round (real_of_int (x - in_min) / real_of_int (in_max - in_min)
              * real_of_int (out_max - out_min)) + out_min"

text \<open>The two arguments are the values \<open>analogRead\<close> returns for the two pins.\<close>

definition readThresholds :: "int \<Rightarrow> int \<Rightarrow> state \<Rightarrow> state" where
  "readThresholds rawTemp rawHum s =
     s\<lparr> temperatureThreshold := map_long rawTemp 0 4095 0 100,
        humidityThreshold := map_long rawHum 0 4095 0 100 \<rparr>"

subsection \<open>storeSensorData\<close>

text \<open>
  \<open>temp\<close> and \<open>hum\<close> are what the DHT sensor returns, \<open>now_secs\<close> is the value of
  \<open>time(nullptr)\<close> as stored in the \<open>unsigned long\<close> field. \<open>erase(begin())\<close>
  runs on a vector of at least 100 elements and removes its first one.
\<close>

definition storeSensorData :: "cfloat \<Rightarrow> cfloat \<Rightarrow> ulong \<Rightarrow> state \<Rightarrow> state" where
  "storeSensorData temp hum now_secs s =
     (if \<not> isnan temp \<and> \<not> isnan hum then
        let s1 = (if length (sensorReadings s) \<ge> 100
                  then s\<lparr> sensorReadings := tl (sensorReadings s) \<rparr> else s);
            newData = \<lparr> temperature = temp, humidity = hum, timestamp = now_secs \<rparr>
        in s1\<lparr> sensorReadings := sensorReadings s1 @ [newData] \<rparr>
      else s)"

subsection \<open>controlCoolerAndWaterPump\<close>

text \<open>
  The function has two parts, one after the other, both on the last element of the
  vector: the control of the thermoelectric module and of the fan, and the control of
  the water pump. \<open>currentTime\<close> is the value of \<open>millis()\<close>. The threshold plus
  or minus \<open>HYSTERESIS / 2.0\<close> is computed in \<open>double\<close>, exactly. The first part
  is given as the statements of the branch taken, in the order of the source, and then
  run as a block.
\<close>

definition coolerAndFanStmts :: "SensorData \<Rightarrow> state \<Rightarrow> (state \<Rightarrow> state) list" where
  "coolerAndFanStmts latestData s =
     (if flt_greater (temperature latestData)
           (Fin (of_int (temperatureThreshold s) + HYSTERESIS / 2.0)) then
        [digitalWrite COOLER_IN1_PIN HIGH,
         digitalWrite COOLER_IN2_PIN LOW,
         (\<lambda>s. s\<lparr> tecState := ''Cooling'' \<rparr>),
         digitalWrite FAN_IN1_PIN HIGH,
         digitalWrite FAN_IN2_PIN LOW]
      else if flt_less (temperature latestData)
           (Fin (of_int (temperatureThreshold s) - HYSTERESIS / 2.0)) then
        [digitalWrite COOLER_IN1_PIN LOW,
         digitalWrite COOLER_IN2_PIN HIGH,
         (\<lambda>s. s\<lparr> tecState := ''Heating'' \<rparr>),
         digitalWrite FAN_IN1_PIN HIGH,
         digitalWrite FAN_IN2_PIN LOW]
      else
        [digitalWrite COOLER_IN1_PIN LOW,
         digitalWrite COOLER_IN2_PIN LOW,
         (\<lambda>s. s\<lparr> tecState := ''Inactive'' \<rparr>),
         digitalWrite FAN_IN1_PIN LOW,
         digitalWrite FAN_IN2_PIN LOW])"

definition coolerAndFanControl :: "SensorData \<Rightarrow> state \<Rightarrow> state" where
  "coolerAndFanControl latestData s = block (coolerAndFanStmts latestData s) s"

definition waterPumpControl :: "SensorData \<Rightarrow> ulong \<Rightarrow> state \<Rightarrow> state" where
  "waterPumpControl latestData currentTime s =
     (if flt_less (humidity latestData) (flt_of_int (humidityThreshold s)) then
        let s1 = (if currentTime - waterPumpCycleStartTime s \<ge> waterPumpCyclePeriod
                  then s\<lparr> waterPumpCycleStartTime := currentTime \<rparr> else s)
        in if currentTime - waterPumpCycleStartTime s1 < waterPumpOnDuration then
             block [digitalWrite WATERPUMP_IN1_PIN HIGH,
                    digitalWrite WATERPUMP_IN2_PIN LOW,
                    (\<lambda>s. s\<lparr> waterPumpState := ''On'' \<rparr>)] s1
           else
             block [digitalWrite WATERPUMP_IN1_PIN LOW,
                    digitalWrite WATERPUMP_IN2_PIN LOW,
                    (\<lambda>s. s\<lparr> waterPumpState := ''Off'' \<rparr>)] s1
      else
        block [digitalWrite WATERPUMP_IN1_PIN LOW,
               digitalWrite WATERPUMP_IN2_PIN LOW,
               (\<lambda>s. s\<lparr> waterPumpState := ''Off'' \<rparr>),
               (\<lambda>s. s\<lparr> waterPumpCycleStartTime := currentTime \<rparr>)] s)"

definition controlCoolerAndWaterPump :: "ulong \<Rightarrow> state \<Rightarrow> state" where
  "controlCoolerAndWaterPump currentTime s =
     (if sensorReadings s = [] then s
      else let latestData = last (sensorReadings s)
           in waterPumpControl latestData currentTime (coolerAndFanControl latestData s))"

subsection \<open>loop\<close>

text \<open>
  One pass of \<open>loop()\<close>, a tick. Its other statements (the web server, the button
  that switches the display, the LCD, the delay of two seconds) read the globals
  modelled here and change none of them.
\<close>

record tick_input =
  rawTemp :: int
  rawHum :: int
  dhtTemperature :: cfloat
  dhtHumidity :: cfloat
  epochSecs :: ulong
  millisNow :: ulong

definition loop :: "tick_input \<Rightarrow> state \<Rightarrow> state" where
  "loop i s =
     controlCoolerAndWaterPump (millisNow i)
       (storeSensorData (dhtTemperature i) (dhtHumidity i) (epochSecs i)
          (readThresholds (rawTemp i) (rawHum i) s))"

text \<open>The ticks of a run, from the first input of the list to the last.\<close>

definition run :: "tick_input list \<Rightarrow> state \<Rightarrow> state" where
  "run inputs s = fold loop inputs s"

subsection \<open>Vocabulary of the properties\<close>

text \<open>
  A tick's sensor sample is valid when \<open>storeSensorData\<close> accepts it; the reading it
  then appends; the readings a run accepts, in the order of the ticks.
\<close>

definition valid_sample :: "tick_input \<Rightarrow> bool" where
  "valid_sample i = (\<not> isnan (dhtTemperature i) \<and> \<not> isnan (dhtHumidity i))"

definition reading_of :: "tick_input \<Rightarrow> SensorData" where
  "reading_of i = \<lparr> temperature = dhtTemperature i, humidity = dhtHumidity i, timestamp = epochSecs i \<rparr>"

definition accepted :: "tick_input list \<Rightarrow> SensorData list" where
  "accepted inputs = map reading_of (filter valid_sample inputs)"

text \<open>Concrete inputs and states on which the theorems below are instantiated.\<close>

definition sample101 :: "tick_input list" where
  "sample101 = map (\<lambda>k. \<lparr> rawTemp = 983, rawHum = 2048, dhtTemperature = Fin 24,
                            dhtHumidity = Fin 40, epochSecs = of_nat k, millisNow = 0 \<rparr>) [0..<101]"

definition full_buffer :: state where
  "full_buffer = init\<lparr> sensorReadings :=
     replicate 100 \<lparr> temperature = Fin 24, humidity = Fin 40, timestamp = 7 \<rparr> \<rparr>"

text \<open>A state whose only reading has temperature \<open>t\<close> and humidity \<open>h\<close>, with the
  temperature threshold at 24 and the humidity threshold at 50.\<close>

definition reading_at :: "real \<Rightarrow> real \<Rightarrow> state" where
  "reading_at t h = init\<lparr> temperatureThreshold := 24, humidityThreshold := 50,
     sensorReadings := [\<lparr> temperature = Fin t, humidity = Fin h, timestamp = 0 \<rparr>] \<rparr>"

text \<open>Both direction inputs of the driver of the thermoelectric module are driven
  \<open>HIGH\<close>.\<close>

definition tec_both_asserted :: "state \<Rightarrow> bool" where
  "tec_both_asserted s = (pins s COOLER_IN1_PIN = HIGH \<and> pins s COOLER_IN2_PIN = HIGH)"

text \<open>A tick on which the sensor fails, with the humidity potentiometer at its
  maximum.\<close>

definition no_sample :: tick_input where
  "no_sample = \<lparr> rawTemp = 983, rawHum = 4095, dhtTemperature = NaN, dhtHumidity = NaN,
                  epochSecs = 0, millisNow = 30000 \<rparr>"

text \<open>The state a tick has reached when it calls the control function.\<close>

definition before_control :: "tick_input \<Rightarrow> state \<Rightarrow> state" where
  "before_control i s =
     storeSensorData (dhtTemperature i) (dhtHumidity i) (epochSecs i)
       (readThresholds (rawTemp i) (rawHum i) s)"

text \<open>The state after the first \<open>k\<close> statements of a block.\<close>

definition after_stmts :: "nat \<Rightarrow> (state \<Rightarrow> state) list \<Rightarrow> state \<Rightarrow> state" where
  "after_stmts k stmts s = block (take k stmts) s"

text \<open>A tick with a reading of 22 degrees and one with 26 degrees, the threshold being
  24 (raw 983) on both; the state in which the second one, run after the first,
  calls the control function.\<close>

definition cold_tick :: tick_input where
  "cold_tick = \<lparr> rawTemp = 983, rawHum = 2048, dhtTemperature = Fin 22, dhtHumidity = Fin 60,
                  epochSecs = 0, millisNow = 30000 \<rparr>"

definition hot_tick :: tick_input where
  "hot_tick = \<lparr> rawTemp = 983, rawHum = 2048, dhtTemperature = Fin 26, dhtHumidity = Fin 60,
                 epochSecs = 2, millisNow = 32000 \<rparr>"

definition hot_after_cold :: state where
  "hot_after_cold = before_control hot_tick (run [cold_tick] init)"

text \<open>A state whose only reading has the humidity 40 below the threshold 50, with the
  cycle started at the given time.\<close>

definition deficit_from :: "ulong \<Rightarrow> state" where
  "deficit_from start = (reading_at 24 40)\<lparr> waterPumpCycleStartTime := start \<rparr>"

text \<open>An evaluation at every millisecond from the time \<open>a\<close> to \<open>a + n\<close>.\<close>

definition every_ms :: "ulong \<Rightarrow> nat \<Rightarrow> ulong list" where
  "every_ms a n = map (\<lambda>k. a + of_nat k) [0..<Suc n]"

definition control_run :: "ulong list \<Rightarrow> state \<Rightarrow> state" where
  "control_run ts s = fold controlCoolerAndWaterPump ts s"

text \<open>A state whose last reading has the humidity 60, above the threshold 50, while the
  pump mode is still On from a cycle started at 22000.\<close>

definition satisfied_while_on :: state where
  "satisfied_while_on = (reading_at 24 60)\<lparr> waterPumpState := ''On'',
     waterPumpCycleStartTime := 22000,
     pins := (\<lambda>p. LOW)(WATERPUMP_IN1_PIN := HIGH) \<rparr>"

text \<open>The first tick after the start of the sketch, at 5000 ms, with a humidity of 40
  percent below the threshold of 50.\<close>

definition first_deficit :: tick_input where
  "first_deficit = \<lparr> rawTemp = 983, rawHum = 2048, dhtTemperature = Fin 24, dhtHumidity = Fin 40,
                      epochSecs = 5, millisNow = 5000 \<rparr>"

text \<open>Three ticks for a run that goes on after \<open>first_tick\<close> below (40 percent at
  22000 ms): a tick at 24001 ms on which the humidity has risen to 60 percent, and a
  tick on which it is back at 40 percent, either 2001 ms or 22000 ms after that one.\<close>

definition wet_tick :: tick_input where
  "wet_tick = \<lparr> rawTemp = 983, rawHum = 2048, dhtTemperature = Fin 24, dhtHumidity = Fin 60,
                 epochSecs = 24, millisNow = 24001 \<rparr>"

definition dry_next :: tick_input where
  "dry_next = \<lparr> rawTemp = 983, rawHum = 2048, dhtTemperature = Fin 24, dhtHumidity = Fin 40,
                 epochSecs = 26, millisNow = 26002 \<rparr>"

definition dry_late :: tick_input where
  "dry_late = \<lparr> rawTemp = 983, rawHum = 2048, dhtTemperature = Fin 24, dhtHumidity = Fin 40,
                 epochSecs = 46, millisNow = 46001 \<rparr>"

text \<open>A first tick with a reading of 24 degrees and 40 percent at 22000 ms, the
  thresholds being 24 and 50; a second tick 2001 ms later with the same raw inputs and
  the same sensor values; and a second tick on which the sensor fails instead, so that
  the last accepted reading stays the one of the first tick.\<close>

definition first_tick :: tick_input where
  "first_tick = \<lparr> rawTemp = 983, rawHum = 2048, dhtTemperature = Fin 24, dhtHumidity = Fin 40,
                   epochSecs = 22, millisNow = 22000 \<rparr>"

definition same_again :: tick_input where
  "same_again = \<lparr> rawTemp = 983, rawHum = 2048, dhtTemperature = Fin 24, dhtHumidity = Fin 40,
                   epochSecs = 24, millisNow = 24001 \<rparr>"

definition sensor_fails :: tick_input where
  "sensor_fails = \<lparr> rawTemp = 983, rawHum = 2048, dhtTemperature = NaN, dhtHumidity = NaN,
                     epochSecs = 24, millisNow = 24001 \<rparr>"

text \<open>A first tick whose reading of 60 percent is above the threshold of 50.\<close>

definition humid_tick :: tick_input where
  "humid_tick = \<lparr> rawTemp = 983, rawHum = 2048, dhtTemperature = Fin 26, dhtHumidity = Fin 60,
                   epochSecs = 22, millisNow = 22000 \<rparr>"

definition humid_again :: tick_input where
  "humid_again = \<lparr> rawTemp = 983, rawHum = 2048, dhtTemperature = Fin 26, dhtHumidity = Fin 60,
                    epochSecs = 24, millisNow = 24001 \<rparr>"

section \<open>Properties\<close>

subsection \<open>The history buffer\<close>

lemma sensorReadings_digitalWrite [simp]: "sensorReadings (digitalWrite p v s) = sensorReadings s"
  by (simp add: digitalWrite_def)

lemma sensorReadings_readThresholds [simp]:
  "sensorReadings (readThresholds a b s) = sensorReadings s"
  by (simp add: readThresholds_def)

lemma sensorReadings_coolerAndFanControl [simp]:
  "sensorReadings (coolerAndFanControl d s) = sensorReadings s"
  by (simp add: coolerAndFanControl_def coolerAndFanStmts_def block_def)

lemma sensorReadings_waterPumpControl [simp]:
  "sensorReadings (waterPumpControl d t s) = sensorReadings s"
  by (simp add: waterPumpControl_def block_def Let_def)

lemma sensorReadings_control [simp]:
  "sensorReadings (controlCoolerAndWaterPump t s) = sensorReadings s"
  by (simp add: controlCoolerAndWaterPump_def Let_def)

lemma sensorReadings_store:
  "sensorReadings (storeSensorData temp hum ts s) =
     (if \<not> isnan temp \<and> \<not> isnan hum
      then (if length (sensorReadings s) \<ge> 100 then tl (sensorReadings s) else sensorReadings s)
            @ [\<lparr> temperature = temp, humidity = hum, timestamp = ts \<rparr>]
      else sensorReadings s)"
  by (simp add: storeSensorData_def Let_def)

lemma sensorReadings_loop:
  "sensorReadings (loop i s) =
     (if valid_sample i
      then (if length (sensorReadings s) \<ge> 100 then tl (sensorReadings s) else sensorReadings s)
            @ [reading_of i]
      else sensorReadings s)"
  by (simp add: loop_def sensorReadings_store valid_sample_def reading_of_def)

lemma run_snoc: "run (inputs @ [i]) s = loop i (run inputs s)"
  by (simp add: run_def)

lemma last100_snoc:
  "(if length (drop (length acc - 100) acc) \<ge> 100 then tl (drop (length acc - 100) acc)
    else drop (length acc - 100) acc) @ [d]
   = drop (length (acc @ [d]) - 100) (acc @ [d])"
proof (cases "length acc \<ge> 100")
  case True
  then have "length acc - 99 = Suc (length acc - 100)"
    by simp
  then have "tl (drop (length acc - 100) acc) = drop (length acc - 99) acc"
    by (simp add: drop_Suc tl_drop)
  with True show ?thesis by simp
next
  case False
  then show ?thesis by simp
qed

lemma accepted_snoc:
  "accepted (inputs @ [i]) = (if valid_sample i then accepted inputs @ [reading_of i] else accepted inputs)"
  by (simp add: accepted_def)

lemma sensorReadings_run:
  "sensorReadings (run inputs init) = drop (length (accepted inputs) - 100) (accepted inputs)"
proof (induction inputs rule: rev_induct)
  case Nil
  show ?case by (simp add: run_def init_def accepted_def)
next
  case (snoc i inputs)
  show ?case
  proof (cases "valid_sample i")
    case True
    have "sensorReadings (run (inputs @ [i]) init) =
          (if length (drop (length (accepted inputs) - 100) (accepted inputs)) \<ge> 100
           then tl (drop (length (accepted inputs) - 100) (accepted inputs))
           else drop (length (accepted inputs) - 100) (accepted inputs)) @ [reading_of i]"
      using True by (simp only: run_snoc sensorReadings_loop snoc.IH if_True)
    also have "\<dots> = drop (length (accepted inputs @ [reading_of i]) - 100)
                        (accepted inputs @ [reading_of i])"
      by (rule last100_snoc)
    finally show ?thesis
      using True by (simp only: accepted_snoc if_True)
  next
    case False
    then show ?thesis
      using snoc.IH by (simp add: run_snoc sensorReadings_loop accepted_snoc)
  qed
qed

lemma run_readings_not_nan:
  assumes "d \<in> set (sensorReadings (run inputs init))"
  shows "\<not> isnan (temperature d) \<and> \<not> isnan (humidity d)"
proof -
  from assms have "d \<in> set (accepted inputs)"
    unfolding sensorReadings_run by (rule in_set_dropD)
  then show ?thesis
    by (auto simp: accepted_def valid_sample_def reading_of_def)
qed

text \<open>
  Claim C5. Starting from the empty buffer of \<open>init\<close>, after any sequence of ticks
  the history holds at most 100 readings: they are the last 100 accepted readings, in
  the order of insertion. After 101 valid readings the buffer holds the readings 2 to
  101 (its first element is the second reading inserted, its length is 100). A valid
  reading that arrives when the buffer holds 100 entries evicts the oldest one and is
  appended at the end.
\<close>

theorem history_bounded_fifo:
  "length (sensorReadings (run inputs init)) \<le> 100
   \<and> sensorReadings (run inputs init)
       = drop (length (accepted inputs) - 100) (accepted inputs)
   \<and> (length inputs = 101 \<and> (\<forall>i \<in> set inputs. valid_sample i) \<longrightarrow>
        length (sensorReadings (run inputs init)) = 100
        \<and> hd (sensorReadings (run inputs init)) = reading_of (inputs ! 1)
        \<and> sensorReadings (run inputs init) = map reading_of (tl inputs))
   \<and> (valid_sample i \<and> length (sensorReadings s) = 100 \<longrightarrow>
        sensorReadings (loop i s) = tl (sensorReadings s) @ [reading_of i])"
proof -
  let ?acc = "accepted inputs"
  have eq: "sensorReadings (run inputs init) = drop (length ?acc - 100) ?acc"
    by (rule sensorReadings_run)
  have bound: "length (sensorReadings (run inputs init)) \<le> 100"
    unfolding eq by simp
  have full: "length (sensorReadings (run inputs init)) = 100
        \<and> hd (sensorReadings (run inputs init)) = reading_of (inputs ! 1)
        \<and> sensorReadings (run inputs init) = map reading_of (tl inputs)"
    if len: "length inputs = 101" and ok: "\<forall>i \<in> set inputs. valid_sample i"
  proof -
    have acc: "?acc = map reading_of inputs"
      using ok by (simp add: accepted_def)
    have "sensorReadings (run inputs init) = drop 1 (map reading_of inputs)"
      unfolding eq acc using len by simp
    then have tl_eq: "sensorReadings (run inputs init) = map reading_of (tl inputs)"
      by (simp add: drop_Suc map_tl)
    have "tl inputs \<noteq> []"
      using len by (cases inputs) auto
    then have "hd (map reading_of (tl inputs)) = reading_of (inputs ! 1)"
      using len by (cases inputs) (auto simp: hd_conv_nth)
    with tl_eq len show ?thesis by simp
  qed
  have step: "sensorReadings (loop i s) = tl (sensorReadings s) @ [reading_of i]"
    if "valid_sample i" "length (sensorReadings s) = 100"
    using that by (simp add: sensorReadings_loop)
  from eq bound full step show ?thesis by blast
qed

theorem history_bounded_fifo_witness:
  "length sample101 = 101 \<and> list_all valid_sample sample101
   \<and> length (sensorReadings (run sample101 init)) = 100
   \<and> hd (sensorReadings (run sample101 init))
       = \<lparr> temperature = Fin 24, humidity = Fin 40, timestamp = 1 \<rparr>
   \<and> valid_sample (hd sample101) \<and> length (sensorReadings full_buffer) = 100
   \<and> length (sensorReadings (loop (hd sample101) full_buffer)) = 100
   \<and> last (sensorReadings (loop (hd sample101) full_buffer))
       = \<lparr> temperature = Fin 24, humidity = Fin 40, timestamp = 0 \<rparr>"
proof -
  have len: "length sample101 = 101"
    by (simp add: sample101_def)
  have ok: "\<forall>i \<in> set sample101. valid_sample i"
    by (simp add: sample101_def valid_sample_def)
  have second: "reading_of (sample101 ! 1)
                = \<lparr> temperature = Fin 24, humidity = Fin 40, timestamp = 1 \<rparr>"
    by (simp add: sample101_def reading_of_def)
  have first: "hd sample101 = \<lparr> rawTemp = 983, rawHum = 2048, dhtTemperature = Fin 24,
                            dhtHumidity = Fin 40, epochSecs = 0, millisNow = 0 \<rparr>"
    by (simp add: sample101_def upt_rec [of 0])
  have v: "valid_sample (hd sample101)"
    by (simp add: first valid_sample_def)
  have full: "length (sensorReadings full_buffer) = 100"
    by (simp add: full_buffer_def)
  note fifo = history_bounded_fifo [of sample101 "hd sample101" full_buffer]
  from fifo len ok
  have run101: "length (sensorReadings (run sample101 init)) = 100
        \<and> hd (sensorReadings (run sample101 init)) = reading_of (sample101 ! 1)"
    by blast
  from fifo v full
  have evict: "sensorReadings (loop (hd sample101) full_buffer)
               = tl (sensorReadings full_buffer) @ [reading_of (hd sample101)]"
    by blast
  have len': "length (sensorReadings (loop (hd sample101) full_buffer)) = 100"
    unfolding evict using full by simp
  have last': "last (sensorReadings (loop (hd sample101) full_buffer))
               = \<lparr> temperature = Fin 24, humidity = Fin 40, timestamp = 0 \<rparr>"
    unfolding evict by (simp add: first reading_of_def)
  from len ok run101 second v full len' last' show ?thesis
    by (simp add: list_all_iff)
qed

text \<open>
  Claim C6. A sample whose temperature or humidity is not-a-number is dropped without
  any effect: \<open>storeSensorData\<close> returns the state it was given (the function has no
  error result), so the history, its length and its last reading are those of the tick
  before.
\<close>

theorem invalid_reading_rejected:
  assumes "isnan temp \<or> isnan hum"
  shows "storeSensorData temp hum now_secs s = s"
  using assms by (auto simp: storeSensorData_def)

theorem invalid_reading_rejected_witness:
  "(isnan NaN \<or> isnan (Fin 40)) \<and> storeSensorData NaN (Fin 40) 5 full_buffer = full_buffer
   \<and> (isnan (Fin 24) \<or> isnan NaN) \<and> storeSensorData (Fin 24) NaN 5 init = init"
proof -
  have a: "isnan NaN \<or> isnan (Fin 40)" by simp
  have b: "isnan (Fin 24) \<or> isnan NaN" by simp
  from invalid_reading_rejected [OF a, of 5 full_buffer]
       invalid_reading_rejected [OF b, of 5 init] a b
  show ?thesis by simp
qed

subsection \<open>The two parts of the control function, as one update each\<close>

lemma coolerAndFanControl_eq:
  "coolerAndFanControl d s =
     (if flt_less (Fin (of_int (temperatureThreshold s) + 1 / 2)) (temperature d) then
        s\<lparr> pins := (pins s)(COOLER_IN1_PIN := HIGH, COOLER_IN2_PIN := LOW,
                            FAN_IN1_PIN := HIGH, FAN_IN2_PIN := LOW),
           tecState := ''Cooling'' \<rparr>
      else if flt_less (temperature d) (Fin (of_int (temperatureThreshold s) - 1 / 2)) then
        s\<lparr> pins := (pins s)(COOLER_IN1_PIN := LOW, COOLER_IN2_PIN := HIGH,
                            FAN_IN1_PIN := HIGH, FAN_IN2_PIN := LOW),
           tecState := ''Heating'' \<rparr>
      else
        s\<lparr> pins := (pins s)(COOLER_IN1_PIN := LOW, COOLER_IN2_PIN := LOW,
                            FAN_IN1_PIN := LOW, FAN_IN2_PIN := LOW),
           tecState := ''Inactive'' \<rparr>)"
  by (simp add: coolerAndFanControl_def coolerAndFanStmts_def block_def digitalWrite_def
      flt_greater_def HYSTERESIS_def)

lemma waterPumpControl_eq:
  "waterPumpControl d now s =
     (if flt_less (humidity d) (Fin (of_int (humidityThreshold s))) then
        (let start = (if now - waterPumpCycleStartTime s \<ge> 22000 then now
                      else waterPumpCycleStartTime s)
         in if now - start < 2000 then
              s\<lparr> waterPumpCycleStartTime := start,
                 pins := (pins s)(WATERPUMP_IN1_PIN := HIGH, WATERPUMP_IN2_PIN := LOW),
                 waterPumpState := ''On'' \<rparr>
            else
              s\<lparr> waterPumpCycleStartTime := start,
                 pins := (pins s)(WATERPUMP_IN1_PIN := LOW, WATERPUMP_IN2_PIN := LOW),
                 waterPumpState := ''Off'' \<rparr>)
      else
        s\<lparr> pins := (pins s)(WATERPUMP_IN1_PIN := LOW, WATERPUMP_IN2_PIN := LOW),
           waterPumpState := ''Off'', waterPumpCycleStartTime := now \<rparr>)"
  by (simp add: waterPumpControl_def block_def digitalWrite_def flt_of_int_def Let_def
      waterPumpCyclePeriod_def waterPumpOnDuration_def waterPumpOffDuration_def)

lemma waterPumpControl_frame:
  "tecState (waterPumpControl d now s) = tecState s"
  "temperatureThreshold (waterPumpControl d now s) = temperatureThreshold s"
  "humidityThreshold (waterPumpControl d now s) = humidityThreshold s"
  "pins (waterPumpControl d now s) COOLER_IN1_PIN = pins s COOLER_IN1_PIN"
  "pins (waterPumpControl d now s) COOLER_IN2_PIN = pins s COOLER_IN2_PIN"
  "pins (waterPumpControl d now s) FAN_IN1_PIN = pins s FAN_IN1_PIN"
  "pins (waterPumpControl d now s) FAN_IN2_PIN = pins s FAN_IN2_PIN"
  by (simp_all add: waterPumpControl_eq Let_def)

lemma coolerAndFanControl_frame:
  "waterPumpState (coolerAndFanControl d s) = waterPumpState s"
  "temperatureThreshold (coolerAndFanControl d s) = temperatureThreshold s"
  "humidityThreshold (coolerAndFanControl d s) = humidityThreshold s"
  "waterPumpCycleStartTime (coolerAndFanControl d s) = waterPumpCycleStartTime s"
  "pins (coolerAndFanControl d s) WATERPUMP_IN1_PIN = pins s WATERPUMP_IN1_PIN"
  "pins (coolerAndFanControl d s) WATERPUMP_IN2_PIN = pins s WATERPUMP_IN2_PIN"
  by (simp_all add: coolerAndFanControl_eq)

lemma control_empty: "sensorReadings s = [] \<Longrightarrow> controlCoolerAndWaterPump now s = s"
  by (simp add: controlCoolerAndWaterPump_def)

lemma control_nonempty:
  "sensorReadings s \<noteq> [] \<Longrightarrow>
   controlCoolerAndWaterPump now s =
     waterPumpControl (last (sensorReadings s)) now
       (coolerAndFanControl (last (sensorReadings s)) s)"
  by (simp add: controlCoolerAndWaterPump_def Let_def)

subsection \<open>The thermal regulator\<close>

text \<open>
  Claim C1. On a tick with a non-empty history whose last reading has the temperature
  \<open>t\<close>, with the threshold \<open>T\<close> and the hysteresis \<open>H = 1.0\<close>: if \<open>t > T + H/2\<close>
  the state is Cooling, the cooling direction is driven (IN1 high, IN2 low) and the fan
  is on (its IN1 high, IN2 low); if \<open>t < T - H/2\<close> the state is Heating, the heating
  direction is driven (IN1 low, IN2 high) and the fan is on; otherwise, the two bounds
  included, the state is Inactive and the four outputs are low.
\<close>

theorem thermal_regulator_decision:
  assumes ne: "sensorReadings s \<noteq> []"
    and t: "temperature (last (sensorReadings s)) = Fin t"
  shows "HYSTERESIS = 1 \<and>
    (let T = real_of_int (temperatureThreshold s); s' = controlCoolerAndWaterPump now s in
       (t > T + HYSTERESIS / 2 \<longrightarrow>
          tecState s' = ''Cooling''
          \<and> pins s' COOLER_IN1_PIN = HIGH \<and> pins s' COOLER_IN2_PIN = LOW
          \<and> pins s' FAN_IN1_PIN = HIGH \<and> pins s' FAN_IN2_PIN = LOW) \<and>
       (t < T - HYSTERESIS / 2 \<longrightarrow>
          tecState s' = ''Heating''
          \<and> pins s' COOLER_IN1_PIN = LOW \<and> pins s' COOLER_IN2_PIN = HIGH
          \<and> pins s' FAN_IN1_PIN = HIGH \<and> pins s' FAN_IN2_PIN = LOW) \<and>
       (T - HYSTERESIS / 2 \<le> t \<and> t \<le> T + HYSTERESIS / 2 \<longrightarrow>
          tecState s' = ''Inactive''
          \<and> pins s' COOLER_IN1_PIN = LOW \<and> pins s' COOLER_IN2_PIN = LOW
          \<and> pins s' FAN_IN1_PIN = LOW \<and> pins s' FAN_IN2_PIN = LOW))"
proof -
  let ?d = "last (sensorReadings s)"
  let ?c = "coolerAndFanControl ?d s"
  have ctl: "controlCoolerAndWaterPump now s = waterPumpControl ?d now ?c"
    using ne by (rule control_nonempty)
  have tec: "tecState (controlCoolerAndWaterPump now s) = tecState ?c"
    unfolding ctl by (rule waterPumpControl_frame)
  have p1: "pins (controlCoolerAndWaterPump now s) COOLER_IN1_PIN = pins ?c COOLER_IN1_PIN"
    unfolding ctl by (rule waterPumpControl_frame)
  have p2: "pins (controlCoolerAndWaterPump now s) COOLER_IN2_PIN = pins ?c COOLER_IN2_PIN"
    unfolding ctl by (rule waterPumpControl_frame)
  have p3: "pins (controlCoolerAndWaterPump now s) FAN_IN1_PIN = pins ?c FAN_IN1_PIN"
    unfolding ctl by (rule waterPumpControl_frame)
  have p4: "pins (controlCoolerAndWaterPump now s) FAN_IN2_PIN = pins ?c FAN_IN2_PIN"
    unfolding ctl by (rule waterPumpControl_frame)
  show ?thesis
    unfolding Let_def tec p1 p2 p3 p4
    by (simp add: coolerAndFanControl_eq t HYSTERESIS_def)
qed

theorem thermal_regulator_decision_witness:
  "tecState (controlCoolerAndWaterPump 0 (reading_at 26 40)) = ''Cooling''
   \<and> pins (controlCoolerAndWaterPump 0 (reading_at 26 40)) FAN_IN1_PIN = HIGH
   \<and> tecState (controlCoolerAndWaterPump 0 (reading_at 22 40)) = ''Heating''
   \<and> pins (controlCoolerAndWaterPump 0 (reading_at 22 40)) FAN_IN1_PIN = HIGH
   \<and> tecState (controlCoolerAndWaterPump 0 (reading_at 24.2 40)) = ''Inactive''
   \<and> pins (controlCoolerAndWaterPump 0 (reading_at 24.2 40)) FAN_IN1_PIN = LOW
   \<and> tecState (controlCoolerAndWaterPump 0 (reading_at 23.5 40)) = ''Inactive''
   \<and> tecState (controlCoolerAndWaterPump 0 (reading_at 24.5 40)) = ''Inactive''"
proof -
  have ne: "sensorReadings (reading_at t h) \<noteq> []" for t h
    by (simp add: reading_at_def)
  have la: "temperature (last (sensorReadings (reading_at t h))) = Fin t" for t h
    by (simp add: reading_at_def)
  have th: "temperatureThreshold (reading_at t h) = 24" for t h
    by (simp add: reading_at_def)
  from thermal_regulator_decision [OF ne la, of 26 40 0]
       thermal_regulator_decision [OF ne la, of 22 40 0]
       thermal_regulator_decision [OF ne la, of "24.2" 40 0]
       thermal_regulator_decision [OF ne la, of "23.5" 40 0]
       thermal_regulator_decision [OF ne la, of "24.5" 40 0]
  show ?thesis
    by (simp add: th Let_def)
qed

subsection \<open>Frame lemmas of a tick\<close>

lemma pins_readThresholds [simp]: "pins (readThresholds a b s) = pins s"
  by (simp add: readThresholds_def)

lemma pins_storeSensorData [simp]: "pins (storeSensorData t h e s) = pins s"
  by (simp add: storeSensorData_def Let_def)

lemma thresholds_control [simp]:
  "temperatureThreshold (controlCoolerAndWaterPump now s) = temperatureThreshold s"
  "humidityThreshold (controlCoolerAndWaterPump now s) = humidityThreshold s"
  by (simp_all add: controlCoolerAndWaterPump_def Let_def waterPumpControl_frame
      coolerAndFanControl_frame)

lemma thresholds_storeSensorData [simp]:
  "temperatureThreshold (storeSensorData t h e s) = temperatureThreshold s"
  "humidityThreshold (storeSensorData t h e s) = humidityThreshold s"
  by (simp_all add: storeSensorData_def Let_def)

lemma thresholds_loop:
  "temperatureThreshold (loop i s) = map_long (rawTemp i) 0 4095 0 100"
  "humidityThreshold (loop i s) = map_long (rawHum i) 0 4095 0 100"
  by (simp_all add: loop_def readThresholds_def)

subsection \<open>The two direction outputs\<close>

lemma coolerAndFanControl_mutex: "\<not> tec_both_asserted (coolerAndFanControl d s)"
  by (simp add: tec_both_asserted_def coolerAndFanControl_eq)

lemma control_mutex:
  assumes "\<not> tec_both_asserted s"
  shows "\<not> tec_both_asserted (controlCoolerAndWaterPump now s)"
proof (cases "sensorReadings s = []")
  case True
  with assms show ?thesis by (simp add: control_empty)
next
  case False
  have "tec_both_asserted (controlCoolerAndWaterPump now s)
        = tec_both_asserted (coolerAndFanControl (last (sensorReadings s)) s)"
    by (simp add: control_nonempty [OF False] tec_both_asserted_def waterPumpControl_frame)
  then show ?thesis by (simp add: coolerAndFanControl_mutex)
qed

lemma loop_mutex: "\<not> tec_both_asserted s \<Longrightarrow> \<not> tec_both_asserted (loop i s)"
  unfolding loop_def by (rule control_mutex) (simp add: tec_both_asserted_def)

lemma run_mutex: "\<not> tec_both_asserted (run inputs init)"
proof (induction inputs rule: rev_induct)
  case Nil
  show ?case by (simp add: run_def init_def tec_both_asserted_def)
next
  case (snoc i inputs)
  then show ?case by (simp add: run_snoc loop_mutex)
qed

lemma loop_before_control:
  "loop i s = controlCoolerAndWaterPump (millisNow i) (before_control i s)"
  by (simp add: loop_def before_control_def)

lemma map_983: "map_long 983 0 4095 0 100 = 24"
  by (simp add: map_long_def round_def)

lemma map_2048: "map_long 2048 0 4095 0 100 = 50"
  by (simp add: map_long_def round_def)

lemma cold_state:
  "tecState (run [cold_tick] init) = ''Heating''
   \<and> pins (run [cold_tick] init) COOLER_IN1_PIN = LOW
   \<and> pins (run [cold_tick] init) COOLER_IN2_PIN = HIGH"
proof -
  have b: "before_control cold_tick init
           = init\<lparr> temperatureThreshold := 24, humidityThreshold := 50,
                   sensorReadings := [\<lparr> temperature = Fin 22, humidity = Fin 60, timestamp = 0 \<rparr>] \<rparr>"
    by (simp add: before_control_def cold_tick_def readThresholds_def storeSensorData_def
        map_983 map_2048 init_def)
  have r: "run [cold_tick] init
           = controlCoolerAndWaterPump (millisNow cold_tick) (before_control cold_tick init)"
    by (simp add: run_def loop_before_control)
  show ?thesis
    unfolding r b
    by (simp add: control_nonempty waterPumpControl_frame coolerAndFanControl_eq init_def)
qed

lemma cooler_block_points:
  assumes "k \<le> 5"
  shows "tec_both_asserted (after_stmts k (coolerAndFanStmts d s) s)
         = ((k = 0 \<and> tec_both_asserted s)
            \<or> (k = 1
               \<and> flt_greater (temperature d)
                    (Fin (of_int (temperatureThreshold s) + HYSTERESIS / 2))
               \<and> pins s COOLER_IN2_PIN = HIGH))"
proof -
  from assms have "k = 0 \<or> k = 1 \<or> k = 2 \<or> k = 3 \<or> k = 4 \<or> k = 5"
    by auto
  then show ?thesis
    by (elim disjE)
       (simp_all add: after_stmts_def coolerAndFanStmts_def block_def digitalWrite_def
          tec_both_asserted_def)
qed

lemma pump_part_keeps_directions:
  "tec_both_asserted (waterPumpControl d t x) = tec_both_asserted x"
  by (simp add: tec_both_asserted_def waterPumpControl_frame)

text \<open>
  Claim C2. The two direction outputs \<open>COOLER_IN1\<close> and \<open>COOLER_IN2\<close> are not both
  high in any state reached from the initial state by any sequence of ticks, nor when
  the next tick has read the thresholds or has stored its sample; the pump part of the
  control function does not touch them. Inside the first part of the control function,
  after \<open>k\<close> of its five statements, both outputs are high in exactly one case: after the
  first statement of the cooling branch, when IN2 was high before the tick (the module
  was heating). The cooling branch writes IN1 high before it writes IN2 low, where the
  heating branch writes IN1 low before it writes IN2 high: there the code does not keep
  what the claim states.
\<close>

theorem tec_directions_exclusive:
  "\<not> tec_both_asserted (run inputs init)
   \<and> \<not> tec_both_asserted (readThresholds (rawTemp i) (rawHum i) (run inputs init))
   \<and> \<not> tec_both_asserted (before_control i (run inputs init))
   \<and> (k \<le> 5 \<longrightarrow>
        tec_both_asserted
          (after_stmts k (coolerAndFanStmts d (before_control i (run inputs init)))
             (before_control i (run inputs init)))
        = (k = 1
           \<and> flt_greater (temperature d)
                (Fin (of_int (temperatureThreshold (before_control i (run inputs init)))
                      + HYSTERESIS / 2))
           \<and> pins (run inputs init) COOLER_IN2_PIN = HIGH))
   \<and> tec_both_asserted (waterPumpControl d t x) = tec_both_asserted x"
proof -
  let ?b = "before_control i (run inputs init)"
  have r: "\<not> tec_both_asserted (run inputs init)"
    by (rule run_mutex)
  then have th: "\<not> tec_both_asserted (readThresholds (rawTemp i) (rawHum i) (run inputs init))"
    and b: "\<not> tec_both_asserted ?b"
    by (simp_all add: tec_both_asserted_def before_control_def)
  have pb: "pins ?b = pins (run inputs init)"
    by (simp add: before_control_def)
  have pts: "tec_both_asserted (after_stmts k (coolerAndFanStmts d ?b) ?b)
        = (k = 1
           \<and> flt_greater (temperature d)
                (Fin (of_int (temperatureThreshold ?b) + HYSTERESIS / 2))
           \<and> pins (run inputs init) COOLER_IN2_PIN = HIGH)"
    if "k \<le> 5"
    using cooler_block_points [OF that, of d ?b] b by (simp add: pb)
  from r th b pts pump_part_keeps_directions [of d t x] show ?thesis
    by blast
qed

theorem tec_directions_exclusive_witness:
  "tecState (run [cold_tick] init) = ''Heating''
   \<and> pins (run [cold_tick] init) COOLER_IN2_PIN = HIGH
   \<and> temperature (last (sensorReadings hot_after_cold)) = Fin 26
   \<and> temperatureThreshold hot_after_cold = 24
   \<and> tec_both_asserted
        (after_stmts 1 (coolerAndFanStmts (last (sensorReadings hot_after_cold)) hot_after_cold)
           hot_after_cold)
   \<and> \<not> tec_both_asserted
        (after_stmts 2 (coolerAndFanStmts (last (sensorReadings hot_after_cold)) hot_after_cold)
           hot_after_cold)"
proof -
  have rd: "sensorReadings hot_after_cold
            = [\<lparr> temperature = Fin 22, humidity = Fin 60, timestamp = 0 \<rparr>,
               \<lparr> temperature = Fin 26, humidity = Fin 60, timestamp = 2 \<rparr>]"
    by (simp add: hot_after_cold_def before_control_def sensorReadings_store hot_tick_def
        run_def sensorReadings_loop valid_sample_def reading_of_def cold_tick_def init_def)
  have th: "temperatureThreshold hot_after_cold = 24"
    by (simp add: hot_after_cold_def before_control_def readThresholds_def hot_tick_def map_983)
  have hot: "flt_greater (temperature (last (sensorReadings hot_after_cold)))
               (Fin (of_int (temperatureThreshold hot_after_cold) + HYSTERESIS / 2))"
    by (simp add: rd th flt_greater_def HYSTERESIS_def)
  have one: "(1::nat) \<le> 5" and two: "(2::nat) \<le> 5"
    by simp_all
  note t = tec_directions_exclusive [of "[cold_tick]" hot_tick _
             "last (sensorReadings hot_after_cold)", folded hot_after_cold_def]
  from t [of 1] t [of 2] one two hot cold_state rd th show ?thesis
    by simp
qed

subsection \<open>No reading yet\<close>

lemma loop_no_reading:
  assumes "sensorReadings s = []" and "\<not> valid_sample i"
  shows "loop i s = readThresholds (rawTemp i) (rawHum i) s"
proof -
  have "isnan (dhtTemperature i) \<or> isnan (dhtHumidity i)"
    using assms(2) by (simp add: valid_sample_def)
  then have "storeSensorData (dhtTemperature i) (dhtHumidity i) (epochSecs i)
               (readThresholds (rawTemp i) (rawHum i) s)
             = readThresholds (rawTemp i) (rawHum i) s"
    by (auto simp: storeSensorData_def)
  then show ?thesis
    using assms(1) by (simp add: loop_def control_empty)
qed

text \<open>
  Claim C9. When the history holds no reading, the control function returns at once:
  no pin is written (the level of every output is the one before the call), and the
  thermal state is the one before. The same holds for a whole tick whose sample is
  rejected while the history is empty.
\<close>

theorem no_reading_no_thermal_actuation:
  assumes "sensorReadings s = []"
  shows "tecState (controlCoolerAndWaterPump now s) = tecState s
       \<and> pins (controlCoolerAndWaterPump now s) = pins s
       \<and> (\<not> valid_sample i \<longrightarrow> tecState (loop i s) = tecState s \<and> pins (loop i s) = pins s)"
  using assms by (simp add: control_empty loop_no_reading readThresholds_def)

theorem no_reading_no_thermal_actuation_witness:
  "sensorReadings init = [] \<and> \<not> valid_sample no_sample
   \<and> tecState (controlCoolerAndWaterPump 30000 init) = ''Inactive''
   \<and> pins (controlCoolerAndWaterPump 30000 init) COOLER_IN1_PIN = LOW
   \<and> tecState (loop no_sample init) = ''Inactive''
   \<and> pins (loop no_sample init) FAN_IN1_PIN = LOW"
proof -
  have e: "sensorReadings init = []"
    by (simp add: init_def)
  have v: "\<not> valid_sample no_sample"
    by (simp add: valid_sample_def no_sample_def)
  from no_reading_no_thermal_actuation [OF e, of 30000 no_sample] e v
  show ?thesis
    by (simp add: init_def)
qed

lemma run_no_reading:
  assumes "\<forall>i \<in> set inputs. \<not> valid_sample i"
  shows "sensorReadings (run inputs init) = []
       \<and> waterPumpState (run inputs init) = ''Off''
       \<and> waterPumpCycleStartTime (run inputs init) = 0
       \<and> pins (run inputs init) = (\<lambda>p. LOW)"
  using assms
proof (induction inputs rule: rev_induct)
  case Nil
  show ?case by (simp add: run_def init_def)
next
  case (snoc i inputs)
  then have IH: "sensorReadings (run inputs init) = []
       \<and> waterPumpState (run inputs init) = ''Off''
       \<and> waterPumpCycleStartTime (run inputs init) = 0
       \<and> pins (run inputs init) = (\<lambda>p. LOW)"
    and inv: "\<not> valid_sample i"
    by simp_all
  from IH inv have "run (inputs @ [i]) init
        = readThresholds (rawTemp i) (rawHum i) (run inputs init)"
    by (simp add: run_snoc loop_no_reading)
  with IH show ?case by (simp add: readThresholds_def)
qed

text \<open>
  Claim C10. When the history holds no reading, the pump part of the control function
  does not run either: the pump mode, the two pump outputs and the start of the cycle
  are those before the call. So over any run from the initial state in which every
  sample is rejected, the history stays empty, the pump mode stays Off, its outputs
  stay low and the start of the cycle stays 0, whatever the humidity threshold is.
\<close>

theorem no_reading_pump_untouched:
  "(sensorReadings s = [] \<longrightarrow>
      waterPumpState (controlCoolerAndWaterPump now s) = waterPumpState s
      \<and> waterPumpCycleStartTime (controlCoolerAndWaterPump now s) = waterPumpCycleStartTime s
      \<and> pins (controlCoolerAndWaterPump now s) WATERPUMP_IN1_PIN = pins s WATERPUMP_IN1_PIN
      \<and> pins (controlCoolerAndWaterPump now s) WATERPUMP_IN2_PIN = pins s WATERPUMP_IN2_PIN)
   \<and> ((\<forall>i \<in> set inputs. \<not> valid_sample i) \<longrightarrow>
      sensorReadings (run inputs init) = []
      \<and> waterPumpState (run inputs init) = ''Off''
      \<and> waterPumpCycleStartTime (run inputs init) = 0
      \<and> pins (run inputs init) WATERPUMP_IN1_PIN = LOW
      \<and> pins (run inputs init) WATERPUMP_IN2_PIN = LOW)"
  using run_no_reading [of inputs] by (simp add: control_empty)

theorem no_reading_pump_untouched_witness:
  "sensorReadings init = []
   \<and> waterPumpState (controlCoolerAndWaterPump 30000 init) = ''Off''
   \<and> waterPumpCycleStartTime (controlCoolerAndWaterPump 30000 init) = 0
   \<and> list_all (\<lambda>i. \<not> valid_sample i) [no_sample, no_sample]
   \<and> humidityThreshold (run [no_sample, no_sample] init) = 100
   \<and> waterPumpState (run [no_sample, no_sample] init) = ''Off''
   \<and> pins (run [no_sample, no_sample] init) WATERPUMP_IN1_PIN = LOW"
proof -
  have e: "sensorReadings init = []"
    by (simp add: init_def)
  have v: "\<not> valid_sample no_sample"
    by (simp add: valid_sample_def no_sample_def)
  have hu: "humidityThreshold (run [no_sample, no_sample] init) = 100"
    by (simp add: run_def thresholds_loop no_sample_def map_long_def round_def)
  from no_reading_pump_untouched [of init 30000 "[no_sample, no_sample]"] e v hu
  show ?thesis
    by (simp add: init_def)
qed

subsection \<open>The humidification controller\<close>

lemma control_pump:
  assumes ne: "sensorReadings s \<noteq> []"
  shows "controlCoolerAndWaterPump now s =
     (let c = coolerAndFanControl (last (sensorReadings s)) s in
      if flt_less (humidity (last (sensorReadings s))) (Fin (of_int (humidityThreshold s))) then
        (let start = (if now - waterPumpCycleStartTime s \<ge> 22000 then now
                      else waterPumpCycleStartTime s)
         in if now - start < 2000 then
              c\<lparr> waterPumpCycleStartTime := start,
                 pins := (pins c)(WATERPUMP_IN1_PIN := HIGH, WATERPUMP_IN2_PIN := LOW),
                 waterPumpState := ''On'' \<rparr>
            else
              c\<lparr> waterPumpCycleStartTime := start,
                 pins := (pins c)(WATERPUMP_IN1_PIN := LOW, WATERPUMP_IN2_PIN := LOW),
                 waterPumpState := ''Off'' \<rparr>)
      else
        c\<lparr> pins := (pins c)(WATERPUMP_IN1_PIN := LOW, WATERPUMP_IN2_PIN := LOW),
           waterPumpState := ''Off'', waterPumpCycleStartTime := now \<rparr>)"
  unfolding control_nonempty [OF ne] waterPumpControl_eq
  by (simp add: coolerAndFanControl_frame Let_def)

lemma elapsed_after_reset:
  fixes now start :: ulong
  shows "now - (if now - start \<ge> 22000 then now else start) < 22000"
  by (simp add: not_le)

lemma unat_small: "m \<le> 22000 \<Longrightarrow> unat (of_nat m :: ulong) = m"
  by (simp add: unat_of_nat)

lemma small_less: "m \<le> 22000 \<Longrightarrow> ((of_nat m :: ulong) < 2000) = (m < 2000)"
  by (simp add: word_less_nat_alt unat_small)

lemma small_le: "m \<le> 22000 \<Longrightarrow> ((22000 :: ulong) \<le> of_nat m) = (22000 \<le> m)"
  by (simp add: word_le_nat_alt unat_small)

lemma control_run_frame:
  "sensorReadings (control_run ts s) = sensorReadings s
   \<and> humidityThreshold (control_run ts s) = humidityThreshold s"
  by (induction ts arbitrary: s) (simp_all add: control_run_def)

lemma every_ms_Suc: "every_ms a (Suc n) = every_ms a n @ [a + of_nat (Suc n)]"
  by (simp add: every_ms_def)

lemma control_run_snoc:
  "control_run (ts @ [t]) s = controlCoolerAndWaterPump t (control_run ts s)"
  by (simp add: control_run_def)

lemma pump_every_ms:
  assumes ne: "sensorReadings s \<noteq> []"
    and deficit: "flt_less (humidity (last (sensorReadings s))) (Fin (of_int (humidityThreshold s)))"
    and start: "waterPumpCycleStartTime s = a"
  shows "waterPumpCycleStartTime (control_run (every_ms a n) s) = a + of_nat (n - n mod 22000)
       \<and> waterPumpState (control_run (every_ms a n) s)
           = (if n mod 22000 < 2000 then ''On'' else ''Off'')"
proof (induction n)
  case 0
  show ?case
    by (simp add: every_ms_def control_run_def control_pump [OF ne] deficit start Let_def)
next
  case (Suc n)
  let ?p = "control_run (every_ms a n) s"
  let ?m = "n mod 22000"
  have ne': "sensorReadings ?p \<noteq> []"
    using ne by (simp add: control_run_frame)
  have deficit': "flt_less (humidity (last (sensorReadings ?p))) (Fin (of_int (humidityThreshold ?p)))"
    using deficit by (simp add: control_run_frame)
  have st: "waterPumpCycleStartTime ?p = a + of_nat (n - ?m)"
    using Suc.IH by simp
  have split: "Suc n = (n - ?m) + Suc ?m"
    by simp
  have "(of_nat (Suc n) :: ulong) = of_nat (n - ?m) + of_nat (Suc ?m)"
    by (subst split) (simp only: of_nat_add)
  then have el: "a + of_nat (Suc n) - waterPumpCycleStartTime ?p = of_nat (Suc ?m)"
    by (simp add: st)
  have m: "Suc ?m \<le> 22000"
    by (simp add: Suc_le_eq)
  show ?case
  proof (cases "Suc ?m = 22000")
    case True
    then have z: "Suc n mod 22000 = 0"
      by (simp add: mod_Suc)
    have reset: "(22000 :: ulong) \<le> a + of_nat (Suc n) - waterPumpCycleStartTime ?p"
      unfolding el small_le [OF m] using True by simp
    show ?thesis
      unfolding every_ms_Suc control_run_snoc control_pump [OF ne'] Let_def
      using deficit' reset by (simp add: z)
  next
    case False
    with m have lt: "Suc ?m < 22000"
      by simp
    then have md: "Suc n mod 22000 = Suc ?m"
      by (simp add: mod_Suc)
    have keep: "\<not> (22000 :: ulong) \<le> a + of_nat (Suc n) - waterPumpCycleStartTime ?p"
      unfolding el small_le [OF m] using lt by simp
    have on: "(a + of_nat (Suc n) - waterPumpCycleStartTime ?p < 2000) = (Suc ?m < 2000)"
      unfolding el by (rule small_less [OF m])
    have "Suc n - Suc n mod 22000 = n - ?m"
      unfolding md by simp
    then show ?thesis
      unfolding every_ms_Suc control_run_snoc control_pump [OF ne'] Let_def
      using deficit' keep on st by (simp add: md)
  qed
qed

lemma before_control_frame:
  "waterPumpCycleStartTime (before_control i s) = waterPumpCycleStartTime s"
  "sensorReadings s \<noteq> [] \<Longrightarrow> sensorReadings (before_control i s) \<noteq> []"
  "sensorReadings (loop i s) = sensorReadings (before_control i s)"
  "humidityThreshold (loop i s) = humidityThreshold (before_control i s)"
  by (simp_all add: before_control_def storeSensorData_def readThresholds_def Let_def
      loop_before_control)

lemma loop_pump_deficit:
  assumes ne: "sensorReadings (loop i s) \<noteq> []"
    and h: "humidity (last (sensorReadings (loop i s))) = Fin h"
    and lt: "h < real_of_int (humidityThreshold (loop i s))"
  shows "waterPumpCycleStartTime (loop i s)
           = (if 22000 \<le> millisNow i - waterPumpCycleStartTime s then millisNow i
              else waterPumpCycleStartTime s)"
    and "waterPumpState (loop i s)
           = (if millisNow i - waterPumpCycleStartTime s < 2000
                 \<or> 22000 \<le> millisNow i - waterPumpCycleStartTime s
              then ''On'' else ''Off'')"
    and "pins (loop i s) WATERPUMP_IN1_PIN
           = (if millisNow i - waterPumpCycleStartTime s < 2000
                 \<or> 22000 \<le> millisNow i - waterPumpCycleStartTime s
              then HIGH else LOW)"
proof -
  let ?b = "before_control i s"
  have ne_b: "sensorReadings ?b \<noteq> []"
    using ne by (simp add: before_control_frame)
  have deficit: "flt_less (humidity (last (sensorReadings ?b))) (Fin (of_int (humidityThreshold ?b)))"
    using h lt by (simp add: before_control_frame)
  have st: "waterPumpCycleStartTime ?b = waterPumpCycleStartTime s"
    by (rule before_control_frame)
  have e: "loop i s = controlCoolerAndWaterPump (millisNow i) ?b"
    by (rule loop_before_control)
  have lo: "x < 2000 \<Longrightarrow> \<not> 22000 \<le> x" for x :: ulong
    by (simp add: not_le) (rule less_trans, assumption, simp)
  show "waterPumpCycleStartTime (loop i s)
           = (if 22000 \<le> millisNow i - waterPumpCycleStartTime s then millisNow i
              else waterPumpCycleStartTime s)"
    unfolding e control_pump [OF ne_b] Let_def st using deficit by simp
  show "waterPumpState (loop i s)
           = (if millisNow i - waterPumpCycleStartTime s < 2000
                 \<or> 22000 \<le> millisNow i - waterPumpCycleStartTime s
              then ''On'' else ''Off'')"
    unfolding e control_pump [OF ne_b] Let_def st using deficit by (auto dest: lo)
  show "pins (loop i s) WATERPUMP_IN1_PIN
           = (if millisNow i - waterPumpCycleStartTime s < 2000
                 \<or> 22000 \<le> millisNow i - waterPumpCycleStartTime s
              then HIGH else LOW)"
    unfolding e control_pump [OF ne_b] Let_def st using deficit by (auto dest: lo)
qed

lemma loop_pump_satisfied:
  assumes ne: "sensorReadings (loop i s) \<noteq> []"
    and h: "humidity (last (sensorReadings (loop i s))) = Fin h"
    and ge: "real_of_int (humidityThreshold (loop i s)) \<le> h"
  shows "waterPumpState (loop i s) = ''Off''"
    and "waterPumpCycleStartTime (loop i s) = millisNow i"
proof -
  let ?b = "before_control i s"
  have ne_b: "sensorReadings ?b \<noteq> []"
    using ne by (simp add: before_control_frame)
  have sat: "\<not> flt_less (humidity (last (sensorReadings ?b))) (Fin (of_int (humidityThreshold ?b)))"
    using h ge by (simp add: before_control_frame)
  have e: "loop i s = controlCoolerAndWaterPump (millisNow i) ?b"
    by (rule loop_before_control)
  show "waterPumpState (loop i s) = ''Off''"
    unfolding e control_pump [OF ne_b] Let_def using sat by simp
  show "waterPumpCycleStartTime (loop i s) = millisNow i"
    unfolding e control_pump [OF ne_b] Let_def using sat by simp
qed

lemma first_reading:
  "valid_sample i \<Longrightarrow> sensorReadings (loop i init) = [reading_of i]"
  by (simp add: sensorReadings_loop init_def)

lemma first_tick_state:
  "run [first_tick] init
   = init\<lparr> temperatureThreshold := 24, humidityThreshold := 50,
           sensorReadings := [\<lparr> temperature = Fin 24, humidity = Fin 40, timestamp = 22 \<rparr>],
           waterPumpCycleStartTime := 22000,
           pins := (\<lambda>p. LOW)(WATERPUMP_IN1_PIN := HIGH),
           waterPumpState := ''On'' \<rparr>"
proof -
  have b: "before_control first_tick init
           = init\<lparr> temperatureThreshold := 24, humidityThreshold := 50,
                   sensorReadings := [\<lparr> temperature = Fin 24, humidity = Fin 40, timestamp = 22 \<rparr>] \<rparr>"
    by (simp add: before_control_def first_tick_def readThresholds_def storeSensorData_def
        map_983 map_2048 init_def)
  have ne: "sensorReadings (before_control first_tick init) \<noteq> []"
    unfolding b by simp
  have r: "run [first_tick] init
           = controlCoolerAndWaterPump 22000 (before_control first_tick init)"
    by (simp add: run_def loop_before_control first_tick_def)
  show ?thesis
    unfolding r control_pump [OF ne] unfolding b
    by (simp add: coolerAndFanControl_eq Let_def init_def fun_eq_iff)
qed

text \<open>
  The claim C3 as the specification states it fails where it measures the windows from
  arming: on the first tick of the sketch, at 5000 ms, the history was empty before, the
  humidity of 40 percent is below the threshold of 50, and the pump is Off, since the
  cycle is counted from 0 and not from this tick.
\<close>

theorem pump_duty_cycle_counterexample:
  "sensorReadings init = []
   \<and> sensorReadings (loop first_deficit init)
       = [\<lparr> temperature = Fin 24, humidity = Fin 40, timestamp = 5 \<rparr>]
   \<and> humidityThreshold (loop first_deficit init) = 50
   \<and> millisNow first_deficit = 5000
   \<and> waterPumpState (loop first_deficit init) = ''Off''
   \<and> waterPumpCycleStartTime (loop first_deficit init) = 0"
proof -
  have v: "valid_sample first_deficit"
    by (simp add: valid_sample_def first_deficit_def)
  have rd: "sensorReadings (loop first_deficit init)
            = [\<lparr> temperature = Fin 24, humidity = Fin 40, timestamp = 5 \<rparr>]"
    unfolding first_reading [OF v] by (simp add: reading_of_def first_deficit_def)
  have th: "humidityThreshold (loop first_deficit init) = 50"
    by (simp add: thresholds_loop first_deficit_def map_2048)
  have ne: "sensorReadings (loop first_deficit init) \<noteq> []"
    and h: "humidity (last (sensorReadings (loop first_deficit init))) = Fin 40"
    and lt: "40 < real_of_int (humidityThreshold (loop first_deficit init))"
    by (simp_all add: rd th)
  have ms: "millisNow first_deficit = 5000"
    by (simp add: first_deficit_def)
  have s0: "waterPumpCycleStartTime init = 0" "sensorReadings init = []"
    by (simp_all add: init_def)
  from loop_pump_deficit [OF ne h lt] rd th ms s0 show ?thesis
    by simp
qed

text \<open>
  Claim C3, with the windows measured from the start of the cycle. On an evaluation
  with a non-empty history whose last reading has a humidity
  \<open>h\<close> below the threshold: the start of the cycle becomes the current time when
  22000 ms or more have passed since it, and stays otherwise; the time elapsed since the
  start of the cycle (as it is after the evaluation) is then below 22000 ms; the pump
  mode is On exactly when this elapsed time is below 2000 ms and Off exactly when it is
  2000 ms or more, and the pump output is driven accordingly. Times are 32-bit counts
  of milliseconds and their differences wrap around, as in the code. This holds for
  every state, hence at every evaluation of a run in which the humidity stays below the
  threshold. The pattern repeats: when the cycle starts at the time \<open>a\<close> and the
  function is evaluated at every millisecond from \<open>a\<close> on, then at \<open>a + n\<close> the mode is
  On when \<open>n mod 22000 < 2000\<close> and Off otherwise, and the cycle has been restarted
  at every multiple of 22000 ms after \<open>a\<close>. The start of the cycle is 0 when the
  sketch starts and otherwise the time of the last restart or of the last evaluation
  with the humidity at or above the threshold.
\<close>

theorem pump_duty_cycle:
  assumes ne: "sensorReadings s \<noteq> []"
    and h: "humidity (last (sensorReadings s)) = Fin h"
    and lt: "h < real_of_int (humidityThreshold s)"
  shows "waterPumpOnDuration = 2000 \<and> waterPumpCyclePeriod = 22000 \<and>
    (let s' = controlCoolerAndWaterPump now s;
         elapsed = now - waterPumpCycleStartTime s' in
       waterPumpCycleStartTime s'
         = (if now - waterPumpCycleStartTime s \<ge> waterPumpCyclePeriod then now
            else waterPumpCycleStartTime s)
       \<and> elapsed < waterPumpCyclePeriod
       \<and> (waterPumpState s' = ''On'') = (elapsed < waterPumpOnDuration)
       \<and> (waterPumpState s' = ''Off'') = (waterPumpOnDuration \<le> elapsed)
       \<and> pins s' WATERPUMP_IN1_PIN = (if elapsed < waterPumpOnDuration then HIGH else LOW)
       \<and> pins s' WATERPUMP_IN2_PIN = LOW)
    \<and> (waterPumpCycleStartTime s = a \<longrightarrow>
         waterPumpState (control_run (every_ms a n) s)
           = (if n mod 22000 < 2000 then ''On'' else ''Off'')
         \<and> waterPumpCycleStartTime (control_run (every_ms a n) s)
           = a + of_nat (n - n mod 22000))"
proof -
  have dur: "waterPumpOnDuration = 2000" "waterPumpCyclePeriod = 22000"
    by (simp_all add: waterPumpCyclePeriod_def waterPumpOnDuration_def waterPumpOffDuration_def)
  have deficit: "flt_less (humidity (last (sensorReadings s))) (Fin (of_int (humidityThreshold s)))"
    using h lt by simp
  let ?start = "if now - waterPumpCycleStartTime s \<ge> 22000 then now
                else waterPumpCycleStartTime s"
  have start: "waterPumpCycleStartTime (controlCoolerAndWaterPump now s) = ?start"
    by (simp add: control_pump [OF ne] deficit Let_def)
  have mode: "waterPumpState (controlCoolerAndWaterPump now s)
              = (if now - ?start < 2000 then ''On'' else ''Off'')"
    by (simp add: control_pump [OF ne] deficit Let_def)
  have in1: "pins (controlCoolerAndWaterPump now s) WATERPUMP_IN1_PIN
              = (if now - ?start < 2000 then HIGH else LOW)"
    by (simp add: control_pump [OF ne] deficit Let_def)
  have in2: "pins (controlCoolerAndWaterPump now s) WATERPUMP_IN2_PIN = LOW"
    by (simp add: control_pump [OF ne] deficit Let_def)
  have bound: "now - ?start < 22000"
    by (rule elapsed_after_reset)
  have step: "waterPumpCycleStartTime (controlCoolerAndWaterPump now s) = ?start
       \<and> now - ?start < 22000
       \<and> (waterPumpState (controlCoolerAndWaterPump now s) = ''On'') = (now - ?start < 2000)
       \<and> (waterPumpState (controlCoolerAndWaterPump now s) = ''Off'') = (2000 \<le> now - ?start)
       \<and> pins (controlCoolerAndWaterPump now s) WATERPUMP_IN1_PIN
           = (if now - ?start < 2000 then HIGH else LOW)
       \<and> pins (controlCoolerAndWaterPump now s) WATERPUMP_IN2_PIN = LOW"
    unfolding start mode in1 in2
    using bound by (auto dest: leD simp: not_less)
  have periodic: "waterPumpState (control_run (every_ms a n) s)
           = (if n mod 22000 < 2000 then ''On'' else ''Off'')
         \<and> waterPumpCycleStartTime (control_run (every_ms a n) s)
           = a + of_nat (n - n mod 22000)"
    if "waterPumpCycleStartTime s = a"
    using pump_every_ms [OF ne deficit that, of n] by simp
  from step periodic show ?thesis
    unfolding Let_def dur start by blast
qed

theorem pump_duty_cycle_witness:
  "waterPumpState (controlCoolerAndWaterPump 22000 (deficit_from 0)) = ''On''
   \<and> waterPumpCycleStartTime (controlCoolerAndWaterPump 22000 (deficit_from 0)) = 22000
   \<and> waterPumpState (controlCoolerAndWaterPump 23999 (deficit_from 22000)) = ''On''
   \<and> waterPumpState (controlCoolerAndWaterPump 24000 (deficit_from 22000)) = ''Off''
   \<and> waterPumpState (controlCoolerAndWaterPump 43999 (deficit_from 22000)) = ''Off''
   \<and> waterPumpCycleStartTime (controlCoolerAndWaterPump 43999 (deficit_from 22000)) = 22000
   \<and> waterPumpState (controlCoolerAndWaterPump 44000 (deficit_from 22000)) = ''On''
   \<and> waterPumpCycleStartTime (controlCoolerAndWaterPump 44000 (deficit_from 22000)) = 44000
   \<and> waterPumpState (controlCoolerAndWaterPump 5000 (deficit_from 0)) = ''Off''
   \<and> waterPumpState (controlCoolerAndWaterPump 1000 (deficit_from 4294966796)) = ''On''
   \<and> waterPumpState (control_run (every_ms 22000 45999) (deficit_from 22000)) = ''On''
   \<and> waterPumpState (control_run (every_ms 22000 46000) (deficit_from 22000)) = ''Off''
   \<and> waterPumpCycleStartTime (control_run (every_ms 22000 46000) (deficit_from 22000)) = 66000"
proof -
  have ne: "sensorReadings (deficit_from a) \<noteq> []" for a
    by (simp add: deficit_from_def reading_at_def)
  have hu: "humidity (last (sensorReadings (deficit_from a))) = Fin 40" for a
    by (simp add: deficit_from_def reading_at_def)
  have lt: "40 < real_of_int (humidityThreshold (deficit_from a))" for a
    by (simp add: deficit_from_def reading_at_def)
  have st: "waterPumpCycleStartTime (deficit_from a) = a" for a
    by (simp add: deficit_from_def)
  have dur: "waterPumpOnDuration = 2000" "waterPumpCyclePeriod = 22000"
    by (simp_all add: waterPumpCyclePeriod_def waterPumpOnDuration_def waterPumpOffDuration_def)
  note w = pump_duty_cycle [OF ne hu lt, THEN conjunct2, THEN conjunct2, unfolded Let_def st dur]
  note step = w [THEN conjunct1]
  note periodic = w [THEN conjunct2, rule_format, OF refl]
  from step [of 22000 0] step [of 23999 22000] step [of 24000 22000] step [of 43999 22000]
       step [of 44000 22000] step [of 5000 0] step [of 1000 4294966796]
       periodic [of 22000 45999] periodic [of 22000 46000]
  show ?thesis
    by simp
qed

lemma second_tick_state:
  "waterPumpState (run [first_tick, wet_tick] init) = ''Off''
   \<and> waterPumpCycleStartTime (run [first_tick, wet_tick] init) = 24001
   \<and> sensorReadings (run [first_tick, wet_tick] init)
       = [\<lparr> temperature = Fin 24, humidity = Fin 40, timestamp = 22 \<rparr>,
          \<lparr> temperature = Fin 24, humidity = Fin 60, timestamp = 24 \<rparr>]"
proof -
  let ?s1 = "run [first_tick] init"
  have e: "run [first_tick, wet_tick] init = loop wet_tick ?s1"
    by (simp add: run_def)
  have rd: "sensorReadings (loop wet_tick ?s1)
       = [\<lparr> temperature = Fin 24, humidity = Fin 40, timestamp = 22 \<rparr>,
          \<lparr> temperature = Fin 24, humidity = Fin 60, timestamp = 24 \<rparr>]"
    unfolding sensorReadings_loop [of wet_tick] first_tick_state
    by (simp add: valid_sample_def reading_of_def wet_tick_def)
  have th: "humidityThreshold (loop wet_tick ?s1) = 50"
    by (simp add: thresholds_loop wet_tick_def map_2048)
  have ne: "sensorReadings (loop wet_tick ?s1) \<noteq> []"
    and h: "humidity (last (sensorReadings (loop wet_tick ?s1))) = Fin 60"
    and ge: "real_of_int (humidityThreshold (loop wet_tick ?s1)) \<le> 60"
    by (simp_all add: rd th)
  have ms: "millisNow wet_tick = 24001"
    by (simp add: wet_tick_def)
  from loop_pump_satisfied [OF ne h ge] rd ms show ?thesis
    unfolding e by simp
qed

text \<open>
  The claim C4 as the specification states it fails in its last part. The pump is On
  after a tick at 22000 ms with 40 percent; the tick at 24001 ms with 60 percent turns
  it Off and sets the start of the cycle to 24001; on the very next tick, at 26002 ms,
  the humidity is back at 40 percent and the pump stays Off: the 2000 ms after the
  reset have passed, and the start of the cycle is still 24001.
\<close>

theorem humidity_satisfied_pump_off_counterexample:
  "waterPumpState (run [first_tick] init) = ''On''
   \<and> waterPumpState (run [first_tick, wet_tick] init) = ''Off''
   \<and> waterPumpCycleStartTime (run [first_tick, wet_tick] init) = 24001
   \<and> humidity (last (sensorReadings (run [first_tick, wet_tick, dry_next] init))) = Fin 40
   \<and> humidityThreshold (run [first_tick, wet_tick, dry_next] init) = 50
   \<and> millisNow dry_next = 26002
   \<and> waterPumpState (run [first_tick, wet_tick, dry_next] init) = ''Off''
   \<and> waterPumpCycleStartTime (run [first_tick, wet_tick, dry_next] init) = 24001"
proof -
  let ?s2 = "run [first_tick, wet_tick] init"
  have e: "run [first_tick, wet_tick, dry_next] init = loop dry_next ?s2"
    by (simp add: run_def)
  have on: "waterPumpState (run [first_tick] init) = ''On''"
    by (simp add: first_tick_state)
  have s2: "waterPumpState ?s2 = ''Off''" "waterPumpCycleStartTime ?s2 = 24001"
    and rd2: "sensorReadings ?s2
       = [\<lparr> temperature = Fin 24, humidity = Fin 40, timestamp = 22 \<rparr>,
          \<lparr> temperature = Fin 24, humidity = Fin 60, timestamp = 24 \<rparr>]"
    using second_tick_state by simp_all
  have rd: "sensorReadings (loop dry_next ?s2)
       = [\<lparr> temperature = Fin 24, humidity = Fin 40, timestamp = 22 \<rparr>,
          \<lparr> temperature = Fin 24, humidity = Fin 60, timestamp = 24 \<rparr>,
          \<lparr> temperature = Fin 24, humidity = Fin 40, timestamp = 26 \<rparr>]"
    unfolding sensorReadings_loop [of dry_next] rd2
    by (simp add: valid_sample_def reading_of_def dry_next_def)
  have th: "humidityThreshold (loop dry_next ?s2) = 50"
    by (simp add: thresholds_loop dry_next_def map_2048)
  have ne: "sensorReadings (loop dry_next ?s2) \<noteq> []"
    and h: "humidity (last (sensorReadings (loop dry_next ?s2))) = Fin 40"
    and lt: "40 < real_of_int (humidityThreshold (loop dry_next ?s2))"
    by (simp_all add: rd th)
  have ms: "millisNow dry_next = 26002"
    by (simp add: dry_next_def)
  from loop_pump_deficit [OF ne h lt] on s2 h th ms show ?thesis
    unfolding e by simp
qed

text \<open>
  Claim C4, with what the reset gives. On an evaluation with a non-empty history whose
  last reading has a humidity \<open>h\<close> at or above the threshold, whatever the state of the
  pump and the position in its cycle: the pump mode becomes Off, both pump outputs are
  driven low, and the start of the cycle becomes the current time. When on the next
  tick the humidity is below the threshold, the pump is On if less than 2000 ms or at
  least 22000 ms have passed since that time (in the second case the cycle restarts),
  and Off in between: with ticks 2000 ms or more apart the pump stays Off until 22000
  ms after the reset.
\<close>

theorem humidity_satisfied_pump_off:
  assumes ne: "sensorReadings s \<noteq> []"
    and h: "humidity (last (sensorReadings s)) = Fin h"
    and ge: "real_of_int (humidityThreshold s) \<le> h"
  shows "let s' = controlCoolerAndWaterPump now s in
     waterPumpState s' = ''Off''
     \<and> pins s' WATERPUMP_IN1_PIN = LOW \<and> pins s' WATERPUMP_IN2_PIN = LOW
     \<and> waterPumpCycleStartTime s' = now
     \<and> (humidity (last (sensorReadings (loop i s'))) = Fin h2
          \<and> h2 < real_of_int (humidityThreshold (loop i s')) \<longrightarrow>
        waterPumpState (loop i s')
          = (if millisNow i - now < waterPumpOnDuration
                \<or> waterPumpCyclePeriod \<le> millisNow i - now
             then ''On'' else ''Off'')
        \<and> pins (loop i s') WATERPUMP_IN1_PIN
          = (if millisNow i - now < waterPumpOnDuration
                \<or> waterPumpCyclePeriod \<le> millisNow i - now
             then HIGH else LOW)
        \<and> waterPumpCycleStartTime (loop i s')
          = (if waterPumpCyclePeriod \<le> millisNow i - now then millisNow i else now))"
proof -
  let ?s' = "controlCoolerAndWaterPump now s"
  have dur: "waterPumpOnDuration = 2000" "waterPumpCyclePeriod = 22000"
    by (simp_all add: waterPumpCyclePeriod_def waterPumpOnDuration_def waterPumpOffDuration_def)
  have satisfied: "\<not> flt_less (humidity (last (sensorReadings s))) (Fin (of_int (humidityThreshold s)))"
    using h ge by simp
  have off: "waterPumpState ?s' = ''Off''
     \<and> pins ?s' WATERPUMP_IN1_PIN = LOW \<and> pins ?s' WATERPUMP_IN2_PIN = LOW
     \<and> waterPumpCycleStartTime ?s' = now"
    by (simp add: control_pump [OF ne] satisfied Let_def)
  then have st: "waterPumpCycleStartTime ?s' = now"
    by simp
  have ne': "sensorReadings (loop i ?s') \<noteq> []"
    using ne by (simp add: before_control_frame)
  have again: "waterPumpState (loop i ?s')
          = (if millisNow i - now < 2000 \<or> 22000 \<le> millisNow i - now then ''On'' else ''Off'')
        \<and> pins (loop i ?s') WATERPUMP_IN1_PIN
          = (if millisNow i - now < 2000 \<or> 22000 \<le> millisNow i - now then HIGH else LOW)
        \<and> waterPumpCycleStartTime (loop i ?s')
          = (if 22000 \<le> millisNow i - now then millisNow i else now)"
    if h2: "humidity (last (sensorReadings (loop i ?s'))) = Fin h2"
      and lt: "h2 < real_of_int (humidityThreshold (loop i ?s'))"
    using loop_pump_deficit [OF ne' h2 lt] unfolding st by simp
  from off again show ?thesis
    unfolding Let_def dur by blast
qed

theorem humidity_satisfied_pump_off_witness:
  "waterPumpState satisfied_while_on = ''On''
   \<and> waterPumpState (controlCoolerAndWaterPump 24001 satisfied_while_on) = ''Off''
   \<and> pins (controlCoolerAndWaterPump 24001 satisfied_while_on) WATERPUMP_IN1_PIN = LOW
   \<and> waterPumpCycleStartTime (controlCoolerAndWaterPump 24001 satisfied_while_on) = 24001
   \<and> waterPumpState (loop dry_next (controlCoolerAndWaterPump 24001 satisfied_while_on)) = ''Off''
   \<and> waterPumpCycleStartTime (loop dry_next (controlCoolerAndWaterPump 24001 satisfied_while_on))
       = 24001
   \<and> waterPumpState (loop dry_late (controlCoolerAndWaterPump 24001 satisfied_while_on)) = ''On''
   \<and> waterPumpCycleStartTime (loop dry_late (controlCoolerAndWaterPump 24001 satisfied_while_on))
       = 46001"
proof -
  let ?s' = "controlCoolerAndWaterPump 24001 satisfied_while_on"
  have ne: "sensorReadings satisfied_while_on \<noteq> []"
    by (simp add: satisfied_while_on_def reading_at_def)
  have hu: "humidity (last (sensorReadings satisfied_while_on)) = Fin 60"
    by (simp add: satisfied_while_on_def reading_at_def)
  have ge: "real_of_int (humidityThreshold satisfied_while_on) \<le> 60"
    by (simp add: satisfied_while_on_def reading_at_def)
  have on: "waterPumpState satisfied_while_on = ''On''"
    by (simp add: satisfied_while_on_def)
  have len: "\<not> 100 \<le> length (sensorReadings satisfied_while_on)"
    by (simp add: satisfied_while_on_def reading_at_def)
  have v: "valid_sample dry_next" "valid_sample dry_late"
    by (simp_all add: valid_sample_def dry_next_def dry_late_def)
  have h2: "humidity (last (sensorReadings (loop dry_next ?s'))) = Fin 40"
    by (simp add: sensorReadings_loop v reading_of_def) (simp add: dry_next_def)
  have h3: "humidity (last (sensorReadings (loop dry_late ?s'))) = Fin 40"
    by (simp add: sensorReadings_loop v reading_of_def) (simp add: dry_late_def)
  have lt2: "40 < real_of_int (humidityThreshold (loop dry_next ?s'))"
    by (simp add: thresholds_loop dry_next_def map_2048)
  have lt3: "40 < real_of_int (humidityThreshold (loop dry_late ?s'))"
    by (simp add: thresholds_loop dry_late_def map_2048)
  have ms: "millisNow dry_next = 26002" "millisNow dry_late = 46001"
    by (simp_all add: dry_next_def dry_late_def)
  have dur: "waterPumpOnDuration = 2000" "waterPumpCyclePeriod = 22000"
    by (simp_all add: waterPumpCyclePeriod_def waterPumpOnDuration_def waterPumpOffDuration_def)
  note t = humidity_satisfied_pump_off [OF ne hu ge, of 24001, unfolded Let_def dur]
  from t [of dry_next 40] t [of dry_late 40] h2 h3 lt2 lt3 on show ?thesis
    by (simp add: ms)
qed

subsection \<open>The threshold mapper\<close>

lemma map_long_percent:
  "map_long r 0 4095 0 100 = round (real_of_int r / 4095 * 100)"
  by (simp add: map_long_def)

text \<open>
  Claim C7. For every raw value \<open>r\<close> from 0 to 4095 each threshold that
  \<open>readThresholds\<close> stores is \<open>round(r / 4095 * 100)\<close>; it lies between 0 and 100;
  the map is monotonic non-decreasing; the raw value 0 gives 0 and the raw value 4095
  gives 100. The rounding is the one of the model of \<open>map\<close> that follows the
  specification; the range, the monotonicity and the two end points are proved from it.
\<close>

theorem threshold_mapper_rounds:
  assumes "0 \<le> r" and "r \<le> 4095"
  shows "temperatureThreshold (readThresholds r r2 s) = round (real_of_int r / 4095 * 100)
       \<and> humidityThreshold (readThresholds r1 r s) = round (real_of_int r / 4095 * 100)
       \<and> 0 \<le> map_long r 0 4095 0 100 \<and> map_long r 0 4095 0 100 \<le> 100
       \<and> (r \<le> r' \<and> r' \<le> 4095 \<longrightarrow> map_long r 0 4095 0 100 \<le> map_long r' 0 4095 0 100)
       \<and> map_long 0 0 4095 0 100 = 0 \<and> map_long 4095 0 4095 0 100 = 100"
proof -
  let ?p = "\<lambda>x::int. real_of_int x / 4095 * 100"
  have lo: "0 \<le> map_long r 0 4095 0 100"
  proof -
    have "round (0::real) \<le> round (?p r)"
      using assms(1) by (intro round_mono) simp
    then show ?thesis
      by (simp add: map_long_percent)
  qed
  have hi: "map_long r 0 4095 0 100 \<le> 100"
  proof -
    have "?p r \<le> 100"
      using assms(2) by simp
    then have "round (?p r) \<le> round (100::real)"
      by (rule round_mono)
    then show ?thesis
      by (simp add: map_long_percent)
  qed
  have mono: "map_long r 0 4095 0 100 \<le> map_long r' 0 4095 0 100" if "r \<le> r'"
  proof -
    have "?p r \<le> ?p r'"
      using that by (simp add: divide_right_mono)
    then show ?thesis
      unfolding map_long_percent by (rule round_mono)
  qed
  have ends: "map_long 0 0 4095 0 100 = 0 \<and> map_long 4095 0 4095 0 100 = 100"
    by (simp add: map_long_def)
  from lo hi mono ends show ?thesis
    by (simp add: readThresholds_def map_long_percent)
qed

theorem threshold_mapper_rounds_witness:
  "temperatureThreshold (readThresholds 4094 21 init) = 100
   \<and> humidityThreshold (readThresholds 21 2048 init) = 50
   \<and> temperatureThreshold (readThresholds 21 2048 init) = 1
   \<and> map_long 2048 0 4095 0 100 \<le> map_long 4094 0 4095 0 100
   \<and> 0 \<le> map_long 4094 0 4095 0 100 \<and> map_long 4094 0 4095 0 100 \<le> 100"
proof -
  have a: "(0::int) \<le> 4094" "(4094::int) \<le> 4095" by simp_all
  have b: "(0::int) \<le> 2048" "(2048::int) \<le> 4095" by simp_all
  have c: "(0::int) \<le> 21" "(21::int) \<le> 4095" by simp_all
  have d: "(2048::int) \<le> 4094 \<and> (4094::int) \<le> 4095" by simp
  have r1: "round (real_of_int 4094 / 4095 * 100) = 100"
    by (simp add: round_def)
  have r2: "round (real_of_int 2048 / 4095 * 100) = 50"
    by (simp add: round_def)
  have r3: "round (real_of_int 21 / 4095 * 100) = 1"
    by (simp add: round_def)
  from threshold_mapper_rounds [OF a, of 21 init 21 4094]
       threshold_mapper_rounds [OF b, of 21 init 21 4094]
       threshold_mapper_rounds [OF c, of 2048 init 21 4094] d r1 r2 r3
  show ?thesis
    by simp
qed

subsection \<open>Repeated ticks\<close>

lemma before_control_thresholds:
  "temperatureThreshold (before_control i s) = map_long (rawTemp i) 0 4095 0 100"
  "humidityThreshold (before_control i s) = map_long (rawHum i) 0 4095 0 100"
  by (simp_all add: before_control_def readThresholds_def)

lemma tec_determined:
  assumes "sensorReadings A \<noteq> []" and "sensorReadings B \<noteq> []"
    and "temperature (last (sensorReadings A)) = temperature (last (sensorReadings B))"
    and "temperatureThreshold A = temperatureThreshold B"
  shows "tecState (controlCoolerAndWaterPump t1 A) = tecState (controlCoolerAndWaterPump t2 B)"
  using assms
  by (simp add: control_nonempty waterPumpControl_frame coolerAndFanControl_eq)

lemma pump_off_when_satisfied:
  assumes "sensorReadings A \<noteq> []"
    and "\<not> flt_less (humidity (last (sensorReadings A))) (flt_of_int (humidityThreshold A))"
  shows "waterPumpState (controlCoolerAndWaterPump t A) = ''Off''"
  using assms by (simp add: control_pump flt_of_int_def Let_def)

text \<open>
  The claim C8 as the specification states it fails. After a first tick that accepts a
  reading with a humidity below the threshold and starts a pump cycle (mode On), a
  second tick 2001 ms later with the same raw inputs and the same sensor values finds
  the mode Off and a history of length 2 instead of 1. When the sensor fails on the
  second tick, the last accepted reading and the history are unchanged, and still the
  mode has gone from On to Off.
\<close>

theorem repeated_ticks_counterexample:
  "sensorReadings (run [first_tick] init) \<noteq> []
   \<and> rawTemp same_again = rawTemp first_tick \<and> rawHum same_again = rawHum first_tick
   \<and> dhtTemperature same_again = dhtTemperature first_tick
   \<and> dhtHumidity same_again = dhtHumidity first_tick
   \<and> waterPumpState (run [first_tick] init) = ''On''
   \<and> waterPumpState (loop same_again (run [first_tick] init)) = ''Off''
   \<and> length (sensorReadings (run [first_tick] init)) = 1
   \<and> length (sensorReadings (loop same_again (run [first_tick] init))) = 2
   \<and> rawTemp sensor_fails = rawTemp first_tick \<and> rawHum sensor_fails = rawHum first_tick
   \<and> sensorReadings (loop sensor_fails (run [first_tick] init))
       = sensorReadings (run [first_tick] init)
   \<and> waterPumpState (loop sensor_fails (run [first_tick] init)) = ''Off''"
proof -
  let ?s1 = "run [first_tick] init"
  have ne: "sensorReadings ?s1 \<noteq> []" and on: "waterPumpState ?s1 = ''On''"
    and len: "length (sensorReadings ?s1) = 1"
    and start: "waterPumpCycleStartTime ?s1 = 22000"
    and hum: "humidity (last (sensorReadings ?s1)) = Fin 40"
    by (simp_all add: first_tick_state)
  have raw: "rawTemp same_again = rawTemp first_tick \<and> rawHum same_again = rawHum first_tick
       \<and> dhtTemperature same_again = dhtTemperature first_tick
       \<and> dhtHumidity same_again = dhtHumidity first_tick
       \<and> rawTemp sensor_fails = rawTemp first_tick \<and> rawHum sensor_fails = rawHum first_tick"
    by (simp add: same_again_def first_tick_def sensor_fails_def)
  have rd2: "sensorReadings (loop same_again ?s1)
             = sensorReadings ?s1 @ [\<lparr> temperature = Fin 24, humidity = Fin 40, timestamp = 24 \<rparr>]"
    by (simp add: sensorReadings_loop len valid_sample_def reading_of_def same_again_def)
  have rd3: "sensorReadings (loop sensor_fails ?s1) = sensorReadings ?s1"
    by (simp add: sensorReadings_loop valid_sample_def sensor_fails_def)
  have off2: "waterPumpState (loop same_again ?s1) = ''Off''"
  proof -
    let ?b = "before_control same_again ?s1"
    have rb: "sensorReadings ?b = sensorReadings (loop same_again ?s1)"
      by (simp add: before_control_frame)
    have neb: "sensorReadings ?b \<noteq> []"
      using ne by (simp add: before_control_frame)
    have hb: "humidity (last (sensorReadings ?b)) = Fin 40"
      unfolding rb rd2 by simp
    have tb: "humidityThreshold ?b = 50"
      by (simp add: before_control_thresholds same_again_def map_2048)
    have sb: "waterPumpCycleStartTime ?b = 22000"
      by (simp add: before_control_frame start)
    show ?thesis
      unfolding loop_before_control control_pump [OF neb] Let_def hb tb sb
      by (simp add: same_again_def)
  qed
  have off3: "waterPumpState (loop sensor_fails ?s1) = ''Off''"
  proof -
    let ?b = "before_control sensor_fails ?s1"
    have rb: "sensorReadings ?b = sensorReadings (loop sensor_fails ?s1)"
      by (simp add: before_control_frame)
    have neb: "sensorReadings ?b \<noteq> []"
      using ne by (simp add: before_control_frame)
    have hb: "humidity (last (sensorReadings ?b)) = Fin 40"
      unfolding rb rd3 by (rule hum)
    have tb: "humidityThreshold ?b = 50"
      by (simp add: before_control_thresholds sensor_fails_def map_2048)
    have sb: "waterPumpCycleStartTime ?b = 22000"
      by (simp add: before_control_frame start)
    show ?thesis
      unfolding loop_before_control control_pump [OF neb] Let_def hb tb sb
      by (simp add: sensor_fails_def)
  qed
  from ne on len raw rd2 rd3 off2 off3 show ?thesis
    by simp
qed

text \<open>
  Claim C8, as far as it holds. Take a state reached by a tick and holding a reading,
  and a further tick with the same raw analog inputs after which the last reading has
  the same temperature and humidity (the sample was rejected, or it carries the same
  values). Then the thermal state is the same after both ticks. When the humidity is
  not below its threshold, the pump mode is Off after both ticks; when it is below, the
  mode after the further tick is the one of the duty cycle at the time of that tick.
  The length of the history is the same when the sample of the further tick is rejected
  or the history already holds 100 readings; otherwise it has grown by one.
\<close>

theorem repeated_ticks_stable:
  assumes ne: "sensorReadings (loop i1 s) \<noteq> []"
    and rawT: "rawTemp i2 = rawTemp i1" and rawH: "rawHum i2 = rawHum i1"
    and sameT: "temperature (last (sensorReadings (loop i2 (loop i1 s))))
                = temperature (last (sensorReadings (loop i1 s)))"
    and sameH: "humidity (last (sensorReadings (loop i2 (loop i1 s))))
                = humidity (last (sensorReadings (loop i1 s)))"
  shows "tecState (loop i2 (loop i1 s)) = tecState (loop i1 s)
     \<and> (\<not> flt_less (humidity (last (sensorReadings (loop i1 s))))
                   (flt_of_int (humidityThreshold (loop i1 s))) \<longrightarrow>
          waterPumpState (loop i1 s) = ''Off''
          \<and> waterPumpState (loop i2 (loop i1 s)) = ''Off'')
     \<and> (flt_less (humidity (last (sensorReadings (loop i1 s))))
                 (flt_of_int (humidityThreshold (loop i1 s))) \<longrightarrow>
          waterPumpState (loop i2 (loop i1 s))
          = (if millisNow i2
                - (if millisNow i2 - waterPumpCycleStartTime (loop i1 s) \<ge> waterPumpCyclePeriod
                   then millisNow i2 else waterPumpCycleStartTime (loop i1 s))
                < waterPumpOnDuration
             then ''On'' else ''Off''))
     \<and> (\<not> valid_sample i2 \<or> 100 \<le> length (sensorReadings (loop i1 s)) \<longrightarrow>
          length (sensorReadings (loop i2 (loop i1 s))) = length (sensorReadings (loop i1 s)))
     \<and> (valid_sample i2 \<and> length (sensorReadings (loop i1 s)) < 100 \<longrightarrow>
          length (sensorReadings (loop i2 (loop i1 s)))
          = Suc (length (sensorReadings (loop i1 s))))"
proof -
  let ?s1 = "loop i1 s"
  let ?s2 = "loop i2 ?s1"
  let ?b1 = "before_control i1 s"
  let ?b2 = "before_control i2 ?s1"
  have r1: "sensorReadings ?b1 = sensorReadings ?s1"
    and r2: "sensorReadings ?b2 = sensorReadings ?s2"
    by (simp_all add: before_control_frame)
  have ne1: "sensorReadings ?b1 \<noteq> []"
    unfolding r1 by (rule ne)
  have ne2: "sensorReadings ?b2 \<noteq> []"
    using ne by (rule before_control_frame)
  have thT: "temperatureThreshold ?b2 = temperatureThreshold ?b1"
    by (simp add: before_control_thresholds rawT)
  have thH: "humidityThreshold ?b2 = humidityThreshold ?b1"
    by (simp add: before_control_thresholds rawH)
  have thH1: "humidityThreshold ?s1 = humidityThreshold ?b1"
    by (rule before_control_frame)
  have e1: "?s1 = controlCoolerAndWaterPump (millisNow i1) ?b1"
    by (rule loop_before_control)
  have e2: "?s2 = controlCoolerAndWaterPump (millisNow i2) ?b2"
    by (rule loop_before_control)
  have tmp: "temperature (last (sensorReadings ?b2)) = temperature (last (sensorReadings ?b1))"
    unfolding r1 r2 by (rule sameT)
  have "tecState (controlCoolerAndWaterPump (millisNow i2) ?b2)
        = tecState (controlCoolerAndWaterPump (millisNow i1) ?b1)"
    using ne2 ne1 tmp thT by (rule tec_determined)
  then have tec: "tecState ?s2 = tecState ?s1"
    by (simp only: e1 [symmetric] e2 [symmetric])
  have hum1: "humidity (last (sensorReadings ?b1)) = humidity (last (sensorReadings ?s1))"
    by (simp only: r1)
  have hum2: "humidity (last (sensorReadings ?b2)) = humidity (last (sensorReadings ?s1))"
    by (simp only: r2 sameH)
  have off: "waterPumpState ?s1 = ''Off'' \<and> waterPumpState ?s2 = ''Off''"
    if sat: "\<not> flt_less (humidity (last (sensorReadings ?s1))) (flt_of_int (humidityThreshold ?s1))"
  proof
    have "\<not> flt_less (humidity (last (sensorReadings ?b1))) (flt_of_int (humidityThreshold ?b1))"
      using sat by (simp add: hum1 thH1)
    with ne1 have "waterPumpState (controlCoolerAndWaterPump (millisNow i1) ?b1) = ''Off''"
      by (rule pump_off_when_satisfied)
    then show "waterPumpState ?s1 = ''Off''"
      by (simp only: e1 [symmetric])
    have "\<not> flt_less (humidity (last (sensorReadings ?b2))) (flt_of_int (humidityThreshold ?b2))"
      using sat by (simp add: hum2 thH thH1)
    with ne2 have "waterPumpState (controlCoolerAndWaterPump (millisNow i2) ?b2) = ''Off''"
      by (rule pump_off_when_satisfied)
    then show "waterPumpState ?s2 = ''Off''"
      by (simp only: e2 [symmetric])
  qed
  have cyc: "waterPumpState ?s2
          = (if millisNow i2
                - (if millisNow i2 - waterPumpCycleStartTime ?s1 \<ge> waterPumpCyclePeriod
                   then millisNow i2 else waterPumpCycleStartTime ?s1)
                < waterPumpOnDuration
             then ''On'' else ''Off'')"
    if deficit: "flt_less (humidity (last (sensorReadings ?s1))) (flt_of_int (humidityThreshold ?s1))"
  proof -
    have d2: "flt_less (humidity (last (sensorReadings ?b2))) (Fin (of_int (humidityThreshold ?b2)))"
      using deficit by (simp add: hum2 thH thH1 flt_of_int_def)
    have st: "waterPumpCycleStartTime ?b2 = waterPumpCycleStartTime ?s1"
      by (rule before_control_frame)
    have "waterPumpState (controlCoolerAndWaterPump (millisNow i2) ?b2)
          = (if millisNow i2
                - (if millisNow i2 - waterPumpCycleStartTime ?b2 \<ge> 22000
                   then millisNow i2 else waterPumpCycleStartTime ?b2)
                < 2000
             then ''On'' else ''Off'')"
      using d2 by (simp add: control_pump [OF ne2] Let_def)
    then show ?thesis
      by (simp only: e2 [symmetric] st waterPumpCyclePeriod_def waterPumpOnDuration_def
          waterPumpOffDuration_def) simp
  qed
  have len_same: "length (sensorReadings ?s2) = length (sensorReadings ?s1)"
    if "\<not> valid_sample i2 \<or> 100 \<le> length (sensorReadings ?s1)"
    using that by (auto simp: sensorReadings_loop [of i2])
  have len_more: "length (sensorReadings ?s2) = Suc (length (sensorReadings ?s1))"
    if "valid_sample i2" "length (sensorReadings ?s1) < 100"
    using that by (simp add: sensorReadings_loop [of i2])
  from tec off cyc len_same len_more show ?thesis
    by blast
qed

theorem repeated_ticks_stable_witness:
  "tecState (loop humid_again (loop humid_tick init)) = tecState (loop humid_tick init)
   \<and> waterPumpState (loop humid_tick init) = ''Off''
   \<and> waterPumpState (loop humid_again (loop humid_tick init)) = ''Off''
   \<and> length (sensorReadings (loop humid_again (loop humid_tick init))) = 2
   \<and> tecState (loop sensor_fails (loop first_tick init)) = tecState (loop first_tick init)
   \<and> length (sensorReadings (loop sensor_fails (loop first_tick init))) = 1
   \<and> waterPumpState (loop sensor_fails (loop first_tick init)) = ''Off''"
proof -
  let ?h1 = "loop humid_tick init"
  let ?f1 = "loop first_tick init"
  have rh1: "sensorReadings ?h1 = [\<lparr> temperature = Fin 26, humidity = Fin 60, timestamp = 22 \<rparr>]"
    by (simp add: sensorReadings_loop valid_sample_def reading_of_def humid_tick_def init_def)
  have rh2: "sensorReadings (loop humid_again ?h1)
             = [\<lparr> temperature = Fin 26, humidity = Fin 60, timestamp = 22 \<rparr>,
                \<lparr> temperature = Fin 26, humidity = Fin 60, timestamp = 24 \<rparr>]"
    unfolding sensorReadings_loop [of humid_again] rh1
    by (simp add: valid_sample_def reading_of_def humid_again_def)
  have vh: "valid_sample humid_again"
    by (simp add: valid_sample_def humid_again_def)
  have hraw: "rawTemp humid_again = rawTemp humid_tick" "rawHum humid_again = rawHum humid_tick"
    by (simp_all add: humid_again_def humid_tick_def)
  have hth: "humidityThreshold ?h1 = 50"
    by (simp add: thresholds_loop humid_tick_def map_2048)
  have hne: "sensorReadings ?h1 \<noteq> []"
    by (simp add: rh1)
  have hT: "temperature (last (sensorReadings (loop humid_again ?h1)))
            = temperature (last (sensorReadings ?h1))"
    by (simp add: rh2 rh1)
  have hH: "humidity (last (sensorReadings (loop humid_again ?h1)))
            = humidity (last (sensorReadings ?h1))"
    by (simp add: rh2 rh1)
  have hsat: "\<not> flt_less (humidity (last (sensorReadings ?h1))) (flt_of_int (humidityThreshold ?h1))"
    by (simp add: rh1 hth flt_of_int_def)
  have hlen: "length (sensorReadings ?h1) < 100" "length (sensorReadings ?h1) = 1"
    by (simp_all add: rh1)
  have f1: "?f1 = run [first_tick] init"
    by (simp add: run_def)
  have rf1: "sensorReadings ?f1 = [\<lparr> temperature = Fin 24, humidity = Fin 40, timestamp = 22 \<rparr>]"
    and fth: "humidityThreshold ?f1 = 50"
    and fst: "waterPumpCycleStartTime ?f1 = 22000"
    unfolding f1 first_tick_state by simp_all
  have rf2: "sensorReadings (loop sensor_fails ?f1) = sensorReadings ?f1"
    unfolding sensorReadings_loop [of sensor_fails]
    by (simp add: valid_sample_def sensor_fails_def)
  have nv: "\<not> valid_sample sensor_fails"
    by (simp add: valid_sample_def sensor_fails_def)
  have fraw: "rawTemp sensor_fails = rawTemp first_tick" "rawHum sensor_fails = rawHum first_tick"
    by (simp_all add: sensor_fails_def first_tick_def)
  have fne: "sensorReadings ?f1 \<noteq> []"
    by (simp add: rf1)
  have fT: "temperature (last (sensorReadings (loop sensor_fails ?f1)))
            = temperature (last (sensorReadings ?f1))"
    by (simp only: rf2)
  have fH: "humidity (last (sensorReadings (loop sensor_fails ?f1)))
            = humidity (last (sensorReadings ?f1))"
    by (simp only: rf2)
  have fdef: "flt_less (humidity (last (sensorReadings ?f1))) (flt_of_int (humidityThreshold ?f1))"
    by (simp add: rf1 fth flt_of_int_def)
  have flen: "length (sensorReadings ?f1) = 1"
    by (simp add: rf1)
  have late: "millisNow sensor_fails = 24001"
    by (simp add: sensor_fails_def)
  have dur: "waterPumpOnDuration = 2000" "waterPumpCyclePeriod = 22000"
    by (simp_all add: waterPumpCyclePeriod_def waterPumpOnDuration_def waterPumpOffDuration_def)
  note a = repeated_ticks_stable [OF hne hraw hT hH]
  note b = repeated_ticks_stable [OF fne fraw fT fH]
  from a hsat vh hlen have a': "tecState (loop humid_again ?h1) = tecState ?h1
       \<and> waterPumpState ?h1 = ''Off'' \<and> waterPumpState (loop humid_again ?h1) = ''Off''
       \<and> length (sensorReadings (loop humid_again ?h1)) = 2"
    by simp
  from b fdef nv flen have b': "tecState (loop sensor_fails ?f1) = tecState ?f1
       \<and> length (sensorReadings (loop sensor_fails ?f1)) = 1
       \<and> waterPumpState (loop sensor_fails ?f1)
           = (if millisNow sensor_fails
                - (if millisNow sensor_fails - waterPumpCycleStartTime ?f1 \<ge> waterPumpCyclePeriod
                   then millisNow sensor_fails else waterPumpCycleStartTime ?f1)
                < waterPumpOnDuration
              then ''On'' else ''Off'')"
    by simp
  then have "waterPumpState (loop sensor_fails ?f1) = ''Off''"
    unfolding late fst dur by simp
  with a' b' show ?thesis
    by simp
qed

end
